theory Spec2Isabelle
  imports Complex_Main "HOL-Library.Sublist" "HOL-Library.Multiset"
begin

section \<open>Python values used by the agents\<close>

text \<open>
  Python floats are modelled as exact reals: every arithmetic operation of the source is
  the corresponding operation on \<open>real\<close>, without binary rounding. Python strings are
  \<open>string\<close>; the case and whitespace functions below are those of the ASCII range
  (a character outside it is left unchanged).
\<close>

subsection \<open>Numbers\<close>

text \<open>
  \<^verbatim>\<open>round(x)\<close> to the nearest integer, a tie going to the even neighbour, and
  \<^verbatim>\<open>round(x, n)\<close> to \<open>n\<close> decimals.
\<close>

definition py_round0 :: "real \<Rightarrow> int" where
  "py_round0 x =
     (let f = \<lfloor>x\<rfloor>; d = x - of_int f
      in if d < 1 / 2 then f else if 1 / 2 < d then f + 1 else if even f then f else f + 1)"

definition py_round :: "real \<Rightarrow> nat \<Rightarrow> real" where
  "py_round x n = of_int (py_round0 (x * 10 ^ n)) / 10 ^ n"

subsection \<open>Strings\<close>

definition ascii_uppercase :: string where
  "ascii_uppercase = ''ABCDEFGHIJKLMNOPQRSTUVWXYZ''"

definition ascii_lowercase :: string where
  "ascii_lowercase = ''abcdefghijklmnopqrstuvwxyz''"

definition lower_char :: "char \<Rightarrow> char" where
  "lower_char c =
     (case map_of (zip ascii_uppercase ascii_lowercase) c of Some l \<Rightarrow> l | None \<Rightarrow> c)"

definition upper_char :: "char \<Rightarrow> char" where
  "upper_char c =
     (case map_of (zip ascii_lowercase ascii_uppercase) c of Some u \<Rightarrow> u | None \<Rightarrow> c)"

definition is_cased :: "char \<Rightarrow> bool" where
  "is_cased c = (c \<in> set ascii_uppercase \<or> c \<in> set ascii_lowercase)"

text \<open>The ASCII whitespace: tab to carriage return, the four separators, the space.\<close>

definition is_space :: "char \<Rightarrow> bool" where
  "is_space c =
     (c \<in> set [CHR 0x09, CHR 0x0A, CHR 0x0B, CHR 0x0C, CHR 0x0D,
                CHR 0x1C, CHR 0x1D, CHR 0x1E, CHR 0x1F, CHR 0x20])"

text \<open>\<^verbatim>\<open>s.lower()\<close>, \<^verbatim>\<open>s.strip()\<close>, \<^verbatim>\<open>s.replace(a, b)\<close> for single characters.\<close>

definition lower :: "string \<Rightarrow> string" where
  "lower s = map lower_char s"

definition strip :: "string \<Rightarrow> string" where
  "strip s = rev (dropWhile is_space (rev (dropWhile is_space s)))"

definition replace_char :: "char \<Rightarrow> char \<Rightarrow> string \<Rightarrow> string" where
  "replace_char a b s = map (\<lambda>c. if c = a then b else c) s"

text \<open>
  \<^verbatim>\<open>s.title()\<close>: a cased character is upper-cased when the character before it is
  not cased, and lower-cased otherwise.
\<close>

fun title_from :: "bool \<Rightarrow> string \<Rightarrow> string" where
  "title_from prev [] = []"
| "title_from prev (c # cs) =
     (if prev then lower_char c else upper_char c) # title_from (is_cased c) cs"

definition title :: "string \<Rightarrow> string" where
  "title s = title_from False s"

text \<open>\<^verbatim>\<open>sep.join(xs)\<close>.\<close>

fun join :: "string \<Rightarrow> string list \<Rightarrow> string" where
  "join sep [] = []"
| "join sep [x] = x"
| "join sep (x # y # ys) = x @ sep @ join sep (y # ys)"

text \<open>
  \<^verbatim>\<open>kw in s\<close> on strings is \<^const>\<open>sublist\<close>; \<^verbatim>\<open>any(kw in s for kw in kws)\<close>:
\<close>

definition any_in :: "string list \<Rightarrow> string \<Rightarrow> bool" where
  "any_in kws s = list_ex (\<lambda>kw. sublist kw s) kws"

section \<open>Configuration (config.py)\<close>

text \<open>The settings at their declared defaults.\<close>

definition STOMACH_CAPACITY_ML :: real where
  "STOMACH_CAPACITY_ML = 1350"

definition DEFAULT_CALORIE_LIMIT :: int where
  "DEFAULT_CALORIE_LIMIT = 2000"

section \<open>Schemas (models/schemas.py)\<close>

text \<open>
  The confidence of \<open>NutritionalData\<close> is the field \<open>nd_confidence\<close>, and the
  scaled macros of a \<open>PhaseItem\<close> carry the prefix \<open>item_\<close>, since a field name
  is declared once.
\<close>

record DetectedDish =
  name :: string
  confidence :: real
  estimated_portion_density :: real
  cooking_method :: "string option"
  cuisine_type :: "string option"
  estimated_grams :: real
  bounding_box :: "(string \<times> real) list option"

record NutritionalData =
  calories :: real
  protein :: real
  fat :: real
  carbs :: real
  fiber :: real
  glycemic_load :: real
  nd_confidence :: real

record DishWithNutrition = DetectedDish +
  nutrition_per_100g :: NutritionalData

record StomachImpact =
  volume_ml :: real
  satiety_score :: real
  digestion_speed :: string
  fullness_contribution :: real

record DishWithStomachImpact = DishWithNutrition +
  stomach_impact :: StomachImpact

section \<open>Nutrition agent (agents/nutrition.py)\<close>

text \<open>
  A number of the nutrition table as it is written in the source: an integer literal, or
  a float literal \<open>a.b\<close> with one decimal digit \<open>b\<close> (every float of the table has this
  form). \<open>num_val\<close> is its value and \<open>num_repr\<close> the text \<^verbatim>\<open>repr\<close> gives for it.
\<close>

datatype pynum = PyInt nat | PyFloat nat nat

fun num_val :: "pynum \<Rightarrow> real" where
  "num_val (PyInt n) = of_nat n"
| "num_val (PyFloat a b) = of_nat a + of_nat b / 10"

definition digits :: string where
  "digits = ''0123456789''"

fun str_nat :: "nat \<Rightarrow> string" where
  "str_nat n =
     (if n < 10 then [digits ! n] else str_nat (n div 10) @ [digits ! (n mod 10)])"

declare str_nat.simps [simp del]

fun num_repr :: "pynum \<Rightarrow> string" where
  "num_repr (PyInt n) = str_nat n"
| "num_repr (PyFloat a b) = str_nat a @ ''.'' @ str_nat b"

text \<open>An entry of the table: the dictionary with the keys cal, protein, fat, carbs, fiber, gl.\<close>

record row =
  r_cal :: pynum
  r_protein :: pynum
  r_fat :: pynum
  r_carbs :: pynum
  r_fiber :: pynum
  r_gl :: pynum

definition mk_row :: "pynum \<Rightarrow> pynum \<Rightarrow> pynum \<Rightarrow> pynum \<Rightarrow> pynum \<Rightarrow> pynum \<Rightarrow> row" where
  "mk_row c p f cb fb g =
     \<lparr>r_cal = c, r_protein = p, r_fat = f, r_carbs = cb, r_fiber = fb, r_gl = g\<rparr>"

text \<open>The table in its insertion order, which is the order \<^verbatim>\<open>items()\<close> walks it in.\<close>

definition load_nutrition_db :: "(string \<times> row) list" where
  "load_nutrition_db =
     [
      (''mixed salad'', mk_row (PyInt 18) (PyFloat 1 5) (PyFloat 0 3) (PyFloat 3 5) (PyFloat 1 2) (PyInt 2)),
      (''salad'', mk_row (PyInt 18) (PyFloat 1 5) (PyFloat 0 3) (PyFloat 3 5) (PyFloat 1 2) (PyInt 2)),
      (''grilled chicken'', mk_row (PyInt 165) (PyInt 31) (PyFloat 3 6) (PyInt 0) (PyInt 0) (PyInt 0)),
      (''chicken'', mk_row (PyInt 165) (PyInt 31) (PyFloat 3 6) (PyInt 0) (PyInt 0) (PyInt 0)),
      (''roasted vegetables'', mk_row (PyInt 65) (PyInt 2) (PyInt 3) (PyInt 8) (PyFloat 2 5) (PyInt 4)),
      (''vegetables'', mk_row (PyInt 65) (PyInt 2) (PyInt 3) (PyInt 8) (PyFloat 2 5) (PyInt 4)),
      (''rice'', mk_row (PyInt 130) (PyFloat 2 7) (PyFloat 0 3) (PyInt 28) (PyFloat 0 4) (PyInt 23)),
      (''bread roll'', mk_row (PyInt 265) (PyFloat 8 5) (PyFloat 3 2) (PyInt 50) (PyFloat 2 7) (PyInt 25)),
      (''bread'', mk_row (PyInt 265) (PyFloat 8 5) (PyFloat 3 2) (PyInt 50) (PyFloat 2 7) (PyInt 25)),
      (''soup'', mk_row (PyInt 45) (PyFloat 2 5) (PyFloat 1 5) (PyInt 6) (PyInt 1) (PyInt 5)),
      (''pasta'', mk_row (PyInt 131) (PyInt 5) (PyFloat 1 1) (PyInt 25) (PyFloat 1 8) (PyInt 18)),
      (''dessert'', mk_row (PyInt 350) (PyInt 4) (PyInt 15) (PyInt 50) (PyInt 1) (PyInt 35)),
      (''cake'', mk_row (PyInt 350) (PyInt 4) (PyInt 15) (PyInt 50) (PyInt 1) (PyInt 35)),
      (''donut'', mk_row (PyInt 421) (PyInt 5) (PyInt 22) (PyInt 52) (PyFloat 1 5) (PyInt 40)),
      (''pizza'', mk_row (PyInt 266) (PyInt 11) (PyInt 10) (PyInt 33) (PyFloat 2 3) (PyInt 22)),
      (''hot dog'', mk_row (PyInt 290) (PyInt 10) (PyInt 26) (PyInt 4) (PyInt 0) (PyInt 3)),
      (''sandwich'', mk_row (PyInt 250) (PyInt 12) (PyInt 10) (PyInt 28) (PyFloat 1 5) (PyInt 20)),
      (''broccoli'', mk_row (PyInt 34) (PyFloat 2 8) (PyFloat 0 4) (PyInt 7) (PyFloat 2 6) (PyInt 2)),
      (''carrot'', mk_row (PyInt 41) (PyFloat 0 9) (PyFloat 0 2) (PyInt 10) (PyFloat 2 8) (PyInt 5)),
      (''apple'', mk_row (PyInt 52) (PyFloat 0 3) (PyFloat 0 2) (PyInt 14) (PyFloat 2 4) (PyInt 6)),
      (''orange'', mk_row (PyInt 47) (PyFloat 0 9) (PyFloat 0 1) (PyInt 12) (PyFloat 2 4) (PyInt 5)),
      (''banana'', mk_row (PyInt 89) (PyFloat 1 1) (PyFloat 0 3) (PyInt 23) (PyFloat 2 6) (PyInt 12)),
      (''steak'', mk_row (PyInt 271) (PyInt 26) (PyInt 18) (PyInt 0) (PyInt 0) (PyInt 0)),
      (''fish'', mk_row (PyInt 206) (PyInt 22) (PyInt 12) (PyInt 0) (PyInt 0) (PyInt 0)),
      (''salmon'', mk_row (PyInt 208) (PyInt 20) (PyInt 13) (PyInt 0) (PyInt 0) (PyInt 0)),
      (''fried chicken'', mk_row (PyInt 287) (PyInt 23) (PyInt 18) (PyInt 12) (PyFloat 0 5) (PyInt 8)),
      (''potato'', mk_row (PyInt 77) (PyInt 2) (PyFloat 0 1) (PyInt 17) (PyFloat 2 2) (PyInt 14)),
      (''fries'', mk_row (PyInt 312) (PyFloat 3 4) (PyInt 15) (PyInt 42) (PyFloat 3 8) (PyInt 25)),
      (''cheese'', mk_row (PyInt 402) (PyInt 25) (PyInt 33) (PyFloat 1 3) (PyInt 0) (PyInt 0)),
      (''eggs'', mk_row (PyInt 155) (PyInt 13) (PyInt 11) (PyFloat 1 1) (PyInt 0) (PyInt 0)),
      (''beans'', mk_row (PyInt 127) (PyFloat 8 7) (PyFloat 0 5) (PyInt 23) (PyFloat 6 4) (PyInt 6)),
      (''lentils'', mk_row (PyInt 116) (PyInt 9) (PyFloat 0 4) (PyInt 20) (PyFloat 7 9) (PyInt 5)),
      (''quinoa'', mk_row (PyInt 120) (PyFloat 4 4) (PyFloat 1 9) (PyInt 21) (PyFloat 2 8) (PyInt 13)),
      (''hummus'', mk_row (PyInt 166) (PyFloat 7 9) (PyFloat 9 6) (PyInt 14) (PyInt 6) (PyInt 4))
     ]"

definition default_row :: row where
  "default_row = mk_row (PyInt 150) (PyInt 8) (PyInt 8) (PyInt 12) (PyFloat 1 5) (PyInt 10)"

definition lookup :: "(string \<times> row) list \<Rightarrow> string \<Rightarrow> row" where
  "lookup db dish_name =
     (let name_lower = strip (lower dish_name)
      in case map_of db name_lower of
           Some v \<Rightarrow> v
         | None \<Rightarrow>
             (case find (\<lambda>(key, val). sublist key name_lower \<or> sublist name_lower key) db of
                Some (key, val) \<Rightarrow> val
              | None \<Rightarrow> default_row))"

text \<open>\<^verbatim>\<open>str(self._db)\<close>: the text of the table, keys and entries in insertion order.\<close>

definition str_row :: "row \<Rightarrow> string" where
  "str_row r =
     ''{'cal': '' @ num_repr (r_cal r) @ '', 'protein': '' @ num_repr (r_protein r)
     @ '', 'fat': '' @ num_repr (r_fat r) @ '', 'carbs': '' @ num_repr (r_carbs r)
     @ '', 'fiber': '' @ num_repr (r_fiber r) @ '', 'gl': '' @ num_repr (r_gl r) @ ''}''"

definition str_entry :: "string \<times> row \<Rightarrow> string" where
  "str_entry e = [CHR 0x27] @ fst e @ [CHR 0x27] @ '': '' @ str_row (snd e)"

definition str_db :: "(string \<times> row) list \<Rightarrow> string" where
  "str_db db = ''{'' @ join '', '' (map str_entry db) @ ''}''"

definition enrich :: "(string \<times> row) list \<Rightarrow> DetectedDish \<Rightarrow> DishWithNutrition" where
  "enrich db d =
     (let nd = lookup db (name d);
          nutrition = \<lparr>calories = num_val (r_cal nd),
                       protein = num_val (r_protein nd),
                       fat = num_val (r_fat nd),
                       carbs = num_val (r_carbs nd),
                       fiber = num_val (r_fiber nd),
                       glycemic_load = num_val (r_gl nd),
                       nd_confidence = (if sublist (lower (name d)) (str_db db) then 9 / 10 else 7 / 10)\<rparr>
      in \<lparr>name = name d,
          confidence = confidence d,
          estimated_portion_density = estimated_portion_density d,
          cooking_method = cooking_method d,
          cuisine_type = cuisine_type d,
          estimated_grams = estimated_grams d,
          bounding_box = bounding_box d,
          nutrition_per_100g = nutrition\<rparr>)"

definition NutritionAgent_process :: "DetectedDish list \<Rightarrow> DishWithNutrition list" where
  "NutritionAgent_process dishes = map (enrich load_nutrition_db) dishes"

section \<open>Stomach physics agent (agents/stomach.py)\<close>

definition satiety_score_of :: "DishWithNutrition \<Rightarrow> real" where
  "satiety_score_of dish =
     (let n = nutrition_per_100g dish;
          cal = max (calories n) 10;
          protein_score = protein n * 2;
          fiber_score = fiber n * 3;
          volume_score = (if cal > 0 then 100 / (cal / 100) else 0);
          fat_penalty = fat n * (1 / 2)
      in max 0 (protein_score + fiber_score + volume_score - fat_penalty))"

definition digestion_speed_of :: "DishWithNutrition \<Rightarrow> string" where
  "digestion_speed_of dish =
     (let n = nutrition_per_100g dish
      in if calories n < 60 \<and> fat n < 2 then ''fast''
         else if fat n > 15 then ''slow''
         else if fiber n > 5 then ''medium''
         else ''medium'')"

definition volume_ml_of :: "DishWithNutrition \<Rightarrow> real" where
  "volume_ml_of dish =
     (let density = (if estimated_portion_density dish \<noteq> 0
                     then estimated_portion_density dish else 1)
      in estimated_grams dish / density)"

definition stomach_impact_of :: "DishWithNutrition \<Rightarrow> DishWithStomachImpact" where
  "stomach_impact_of d =
     (let vol = volume_ml_of d;
          satiety = satiety_score_of d;
          speed = digestion_speed_of d;
          fullness = min 1 ((vol / STOMACH_CAPACITY_ML) * (1 + satiety * (1 / 10)));
          impact = \<lparr>volume_ml = vol,
                    satiety_score = py_round satiety 2,
                    digestion_speed = speed,
                    fullness_contribution = py_round fullness 3\<rparr>
      in \<lparr>name = name d,
          confidence = confidence d,
          estimated_portion_density = estimated_portion_density d,
          cooking_method = cooking_method d,
          cuisine_type = cuisine_type d,
          estimated_grams = estimated_grams d,
          bounding_box = bounding_box d,
          nutrition_per_100g = nutrition_per_100g d,
          stomach_impact = impact\<rparr>)"

definition StomachPhysicsAgent_process :: "DishWithNutrition list \<Rightarrow> DishWithStomachImpact list" where
  "StomachPhysicsAgent_process dishes = map stomach_impact_of dishes"

section \<open>Goal optimization agent (agents/optimization.py)\<close>

record GoalOptimizationAgent =
  calorie_limit :: int
  stomach_capacity_ml :: real

text \<open>
  The constructor: \<^verbatim>\<open>calorie_limit or settings.DEFAULT_CALORIE_LIMIT\<close> takes the default
  for \<^verbatim>\<open>None\<close> and for 0.
\<close>

definition GoalOptimizationAgent_init :: "int option \<Rightarrow> real \<Rightarrow> GoalOptimizationAgent" where
  "GoalOptimizationAgent_init cl cap =
     \<lparr>calorie_limit = (case cl of None \<Rightarrow> DEFAULT_CALORIE_LIMIT
                        | Some c \<Rightarrow> if c = 0 then DEFAULT_CALORIE_LIMIT else c),
      stomach_capacity_ml = cap\<rparr>"

definition goal_reward :: "DishWithStomachImpact \<Rightarrow> string \<Rightarrow> real" where
  "goal_reward dish goal =
     (let n = nutrition_per_100g dish;
          g = estimated_grams dish / 100;
          sat = satiety_score (stomach_impact dish)
      in if goal = ''fat_loss'' then (protein n * 2 + fiber n * 2 - calories n / 50) * g
         else if goal = ''muscle_gain'' then (protein n * 3 + carbs n * (1 / 2)) * g
         else if goal = ''blood_sugar'' then (10 - glycemic_load n + fiber n * 2) * g
         else (sat + protein n * (1 / 2)) * g)"

definition filter_allergies ::
  "DishWithStomachImpact list \<Rightarrow> string list \<Rightarrow> DishWithStomachImpact list" where
  "filter_allergies dishes allergies =
     (if allergies = [] then dishes
      else let allergen_keywords = map lower allergies
           in filter (\<lambda>d. \<not> any_in allergen_keywords (lower (name d))) dishes)"

text \<open>
  The two keyword collections of \<^verbatim>\<open>_filter_dietary\<close> are Python sets of strings, and
  the order in which \<^verbatim>\<open>any\<close> walks a set of strings is fixed by the interpreter's string
  hashing, which may differ from one run to the next. The order of each walk is
  therefore an argument of the model: a \<open>set_iteration\<close> gives the sequence in which the
  members of each set literal are visited.
\<close>

definition non_vegan :: "string set" where
  "non_vegan = {''chicken'', ''meat'', ''fish'', ''salmon'', ''steak'', ''eggs'', ''cheese''}"

definition non_veg :: "string set" where
  "non_veg = {''chicken'', ''meat'', ''fish'', ''salmon'', ''steak'', ''hot dog''}"

record set_iteration =
  non_vegan_iter :: "string list"
  non_veg_iter :: "string list"

definition iterates :: "set_iteration \<Rightarrow> bool" where
  "iterates it = (set (non_vegan_iter it) = non_vegan \<and> set (non_veg_iter it) = non_veg)"

definition source_order :: set_iteration where
  "source_order =
     \<lparr>non_vegan_iter = [''chicken'', ''meat'', ''fish'', ''salmon'', ''steak'', ''eggs'', ''cheese''],
      non_veg_iter = [''chicken'', ''meat'', ''fish'', ''salmon'', ''steak'', ''hot dog'']\<rparr>"

definition filter_dietary ::
  "set_iteration \<Rightarrow> DishWithStomachImpact list \<Rightarrow> string list \<Rightarrow> DishWithStomachImpact list" where
  "filter_dietary it dishes filters =
     (if filters = [] then dishes
      else let filter_lower = map lower filters
           in if ''vegan'' \<in> set filter_lower
              then filter (\<lambda>d. \<not> any_in (non_vegan_iter it) (lower (name d))) dishes
              else if ''vegetarian'' \<in> set filter_lower
              then filter (\<lambda>d. \<not> any_in (non_veg_iter it) (lower (name d))) dishes
              else dishes)"

text \<open>The dishes that reach the scoring step: both filters, in the order of the source.\<close>

definition filtered ::
  "set_iteration \<Rightarrow> DishWithStomachImpact list \<Rightarrow> string list option \<Rightarrow> string list option
     \<Rightarrow> DishWithStomachImpact list" where
  "filtered it dishes allergies dietary_filters =
     filter_dietary it
       (filter_allergies dishes (case allergies of None \<Rightarrow> [] | Some a \<Rightarrow> a))
       (case dietary_filters of None \<Rightarrow> [] | Some f \<Rightarrow> f)"

text \<open>
  \<^verbatim>\<open>scored.sort(key=lambda x: -x[0])\<close> is a stable sort, as \<^const>\<open>sort_key\<close> is.
\<close>

definition scored :: "DishWithStomachImpact list \<Rightarrow> string \<Rightarrow> (real \<times> DishWithStomachImpact) list" where
  "scored dishes goal = sort_key (\<lambda>x. - fst x) (map (\<lambda>d. (goal_reward d goal, d)) dishes)"

text \<open>
  The selection loop. Its state is \<open>(selected, total_cal, total_vol)\<close>; \<open>fits\<close> is the
  test of the loop body and \<open>accept\<close> its three updates.
\<close>

type_synonym selection = "DishWithStomachImpact list \<times> real \<times> real"

definition dish_cal :: "DishWithStomachImpact \<Rightarrow> real" where
  "dish_cal d = calories (nutrition_per_100g d) * (estimated_grams d / 100)"

definition dish_vol :: "DishWithStomachImpact \<Rightarrow> real" where
  "dish_vol d = volume_ml (stomach_impact d)"

definition fits :: "GoalOptimizationAgent \<Rightarrow> selection \<Rightarrow> DishWithStomachImpact \<Rightarrow> bool" where
  "fits a st d =
     (case st of (selected, total_cal, total_vol) \<Rightarrow>
        total_cal + dish_cal d \<le> of_int (calorie_limit a)
        \<and> total_vol + dish_vol d \<le> stomach_capacity_ml a * (11 / 10))"

definition accept :: "selection \<Rightarrow> DishWithStomachImpact \<Rightarrow> selection" where
  "accept st d =
     (case st of (selected, total_cal, total_vol) \<Rightarrow>
        (selected @ [d], total_cal + dish_cal d, total_vol + dish_vol d))"

fun select_loop :: "GoalOptimizationAgent \<Rightarrow> selection \<Rightarrow> DishWithStomachImpact list \<Rightarrow> selection" where
  "select_loop a st [] = st"
| "select_loop a st (d # ds) =
     (if fits a st d then select_loop a (accept st d) ds else select_loop a st ds)"

definition GoalOptimizationAgent_process ::
  "GoalOptimizationAgent \<Rightarrow> set_iteration \<Rightarrow> DishWithStomachImpact list \<Rightarrow> string
     \<Rightarrow> string list option \<Rightarrow> string list option
     \<Rightarrow> DishWithStomachImpact list \<times> DishWithStomachImpact list" where
  "GoalOptimizationAgent_process a it dishes0 goal allergies dietary_filters =
     (let dishes = filtered it dishes0 allergies dietary_filters
      in if dishes = [] then ([], [])
         else let selected = fst (select_loop a ([], 0, 0) (map snd (scored dishes goal)));
                  skip = filter (\<lambda>d. d \<notin> set selected) dishes
              in (selected, skip))"

section \<open>Strategy planning agent (agents/strategy.py)\<close>

text \<open>
  The reason of a portion is one of four texts, two of which interpolate a float of the
  dish. The float is kept as a number: its decimal text is Python's formatting of a
  binary float, which an exact real does not have.
\<close>

datatype reason_text =
    VolumeFill
  | HighProtein real
  | LowGlycemicLoad real
  | BalancedPortion

record PhaseItem =
  dish_name :: string
  portion_grams :: real
  portion_ml :: "real option"
  item_calories :: real
  item_protein :: real
  item_carbs :: real
  item_fat :: real
  reason :: reason_text

record phase =
  phase_name :: string
  phase_order :: int
  items :: "PhaseItem list"

record skip_entry =
  skip_name :: string
  skip_reason :: string

record strategy =
  phase_1 :: "phase option"
  phase_2 :: "phase option"
  phase_3 :: "phase option"
  phase_4 :: "phase option"
  phase_5 :: "phase option"
  phases :: "phase list"
  skip :: "skip_entry list"
  total_calories :: real
  fullness_score :: real
  stomach_used_ml :: real

definition classify_phase :: "DishWithStomachImpact \<Rightarrow> string" where
  "classify_phase dish =
     (let n = nutrition_per_100g dish;
          name_lower = lower (name dish)
      in if any_in [''soup'', ''salad'', ''broth'', ''consomme''] name_lower then ''starter''
         else if protein n > 15
                 \<or> any_in [''chicken'', ''fish'', ''steak'', ''salmon'', ''meat'', ''eggs''] name_lower
         then ''protein''
         else if any_in [''dessert'', ''cake'', ''donut'', ''cookie'', ''pastry''] name_lower
         then ''treats''
         else if any_in [''rice'', ''pasta'', ''bread'', ''potato'', ''quinoa'', ''beans''] name_lower
         then ''carbs''
         else if any_in [''vegetable'', ''broccoli'', ''carrot''] name_lower then ''vegetables''
         else if protein n > 10 then ''protein''
         else if carbs n > 20 then ''carbs''
         else ''vegetables'')"

definition order_map :: "(string \<times> int) list" where
  "order_map =
     [(''starter'', 1), (''protein'', 2), (''vegetables'', 3), (''carbs'', 4), (''treats'', 5)]"

definition phase_order_of :: "string \<Rightarrow> int" where
  "phase_order_of phase_name' = (case map_of order_map phase_name' of Some k \<Rightarrow> k | None \<Rightarrow> 3)"

definition compute_portion ::
  "DishWithStomachImpact \<Rightarrow> DishWithStomachImpact list \<Rightarrow> real \<Rightarrow> real \<Rightarrow> real \<times> reason_text" where
  "compute_portion dish selected_dishes calorie_budget_remaining stomach_remaining_ml =
     (let n = nutrition_per_100g dish;
          cal_per_100 = calories n;
          vol_per_100 = (if estimated_grams dish \<noteq> 0
                         then volume_ml (stomach_impact dish) / (estimated_grams dish / 100)
                         else 100);
          max_by_cal = (if cal_per_100 > 0 then (calorie_budget_remaining / cal_per_100) * 100 else 500);
          max_by_vol = (if vol_per_100 > 0 then (stomach_remaining_ml / vol_per_100) * 100 else 500);
          portion = min (estimated_grams dish) (min max_by_cal (min max_by_vol 250));
          portion = max 20 (py_round portion 0);
          reason' = (if sublist ''soup'' (lower (name dish)) \<or> sublist ''salad'' (lower (name dish))
                     then VolumeFill
                     else if protein n > 15 then HighProtein (protein n)
                     else if glycemic_load n < 5 then LowGlycemicLoad (glycemic_load n)
                     else BalancedPortion)
      in (portion, reason'))"

text \<open>
  \<^verbatim>\<open>phase_groups.setdefault(phase, []).append(d)\<close> on a dictionary kept in insertion
  order: a new phase is added after the phases already there.
\<close>

fun group_add ::
  "(string \<times> DishWithStomachImpact list) list \<Rightarrow> string \<Rightarrow> DishWithStomachImpact
     \<Rightarrow> (string \<times> DishWithStomachImpact list) list" where
  "group_add [] k d = [(k, [d])]"
| "group_add ((k', ds) # g) k d =
     (if k' = k then (k', ds @ [d]) # g else (k', ds) # group_add g k d)"

definition phase_groups ::
  "DishWithStomachImpact list \<Rightarrow> (string \<times> DishWithStomachImpact list) list" where
  "phase_groups selected_dishes =
     foldl (\<lambda>g d. group_add g (classify_phase d) d) [] selected_dishes"

text \<open>
  The body of the inner loop: the item of one dish, from the running totals
  \<open>(total_calories, stomach_used_ml)\<close>, and the totals after it.
\<close>

definition plan_item ::
  "int \<Rightarrow> DishWithStomachImpact list \<Rightarrow> real \<times> real \<Rightarrow> DishWithStomachImpact
     \<Rightarrow> PhaseItem \<times> (real \<times> real)" where
  "plan_item calorie_limit' selected_dishes totals dish =
     (case totals of (total_calories', stomach_used_ml') \<Rightarrow>
        let cal_remaining = of_int calorie_limit' - total_calories';
            vol_remaining = STOMACH_CAPACITY_ML - stomach_used_ml';
            (portion, reason') = compute_portion dish selected_dishes cal_remaining vol_remaining;
            n = nutrition_per_100g dish;
            factor = portion / 100;
            item = \<lparr>dish_name = name dish,
                     portion_grams = portion,
                     portion_ml = (if estimated_grams dish \<noteq> 0
                                   then Some (py_round (volume_ml (stomach_impact dish)
                                                         * (portion / estimated_grams dish)) 1)
                                   else None),
                     item_calories = py_round (calories n * factor) 1,
                     item_protein = py_round (protein n * factor) 1,
                     item_carbs = py_round (carbs n * factor) 1,
                     item_fat = py_round (fat n * factor) 1,
                     reason = reason'\<rparr>
        in (item,
            (total_calories' + item_calories item,
             stomach_used_ml' + (case portion_ml item of
                                   None \<Rightarrow> portion * 1
                                 | Some v \<Rightarrow> if v \<noteq> 0 then v else portion * 1))))"

fun plan_items ::
  "int \<Rightarrow> DishWithStomachImpact list \<Rightarrow> real \<times> real \<Rightarrow> DishWithStomachImpact list
     \<Rightarrow> PhaseItem list \<times> (real \<times> real)" where
  "plan_items cl sel totals [] = ([], totals)"
| "plan_items cl sel totals (dish # dishes) =
     (let (item, totals') = plan_item cl sel totals dish;
          (items', totals'') = plan_items cl sel totals' dishes
      in (item # items', totals''))"

text \<open>
  The outer loop, over the phase names in sorted order; \<open>groups\<close> is the dictionary
  the names are keys of.
\<close>

fun plan_phases ::
  "int \<Rightarrow> DishWithStomachImpact list \<Rightarrow> (string \<times> DishWithStomachImpact list) list
     \<Rightarrow> real \<times> real \<Rightarrow> string list \<Rightarrow> phase list \<times> (real \<times> real)" where
  "plan_phases cl sel groups totals [] = ([], totals)"
| "plan_phases cl sel groups totals (phase_name' # names) =
     (let dishes = (case map_of groups phase_name' of Some ds \<Rightarrow> ds | None \<Rightarrow> []);
          (items', totals') = plan_items cl sel totals dishes;
          p = \<lparr>phase_name = title (replace_char CHR ''_'' CHR '' '' phase_name'),
               phase_order = phase_order_of phase_name',
               items = items'\<rparr>;
          (ps, totals'') = plan_phases cl sel groups totals' names
      in (p # ps, totals''))"

definition nth_phase :: "phase list \<Rightarrow> nat \<Rightarrow> phase option" where
  "nth_phase ps i = (if length ps > i then Some (ps ! i) else None)"

definition skip_list_of :: "DishWithStomachImpact list \<Rightarrow> skip_entry list" where
  "skip_list_of skip_dishes =
     map (\<lambda>d. \<lparr>skip_name = name d,
                skip_reason = ''Lower priority for goal or exceeded volume/calorie limit''\<rparr>)
       skip_dishes"

definition build_strategy ::
  "DishWithStomachImpact list \<Rightarrow> DishWithStomachImpact list \<Rightarrow> int \<Rightarrow> strategy" where
  "build_strategy selected_dishes skip_dishes calorie_limit' =
     (let groups = phase_groups selected_dishes;
          (ps, (total_calories', stomach_used_ml')) =
             plan_phases calorie_limit' selected_dishes groups (0, 0)
               (sort_key phase_order_of (map fst groups));
          ps = sort_key phase_order ps;
          fullness = min 1 (stomach_used_ml' / STOMACH_CAPACITY_ML)
      in \<lparr>phase_1 = nth_phase ps 0,
          phase_2 = nth_phase ps 1,
          phase_3 = nth_phase ps 2,
          phase_4 = nth_phase ps 3,
          phase_5 = nth_phase ps 4,
          phases = ps,
          skip = skip_list_of skip_dishes,
          total_calories = py_round total_calories' 1,
          fullness_score = py_round fullness 2,
          stomach_used_ml = py_round stomach_used_ml' 1\<rparr>)"

text \<open>The explanation: the parts in the order they are appended.\<close>

definition goal_hint :: "string \<Rightarrow> string" where
  "goal_hint goal =
     (case map_of
        [(''fat_loss'', ''Strategy favors high-protein, high-fiber, low-calorie-density items.''),
         (''muscle_gain'', ''Strategy prioritizes protein and moderate carbs for recovery.''),
         (''blood_sugar'', ''Strategy selects low-glycemic items and pairs carbs with fiber.''),
         (''enjoyment_first'', ''Strategy balances satiety with variety for maximum enjoyment.'')]
        goal of Some h \<Rightarrow> h | None \<Rightarrow> [])"

definition item_names :: "phase \<Rightarrow> string list" where
  "item_names p = map dish_name (items p)"

definition generate_explanation ::
  "strategy \<Rightarrow> string \<Rightarrow> DishWithStomachImpact list \<Rightarrow> DishWithStomachImpact list \<Rightarrow> string" where
  "generate_explanation strat goal selected skip' =
     (let starter_items = filter (\<lambda>p. sublist ''starter'' (lower (phase_name p))) (phases strat);
          part_starter =
            (case starter_items of
               p # _ \<Rightarrow> if items p \<noteq> []
                         then [''Start with soup or salad to fill volume cheaply (low calories, high satiety). '']
                         else []
             | [] \<Rightarrow> []);
          protein_items = filter (\<lambda>p. sublist ''protein'' (lower (phase_name p))) (phases strat);
          part_protein =
            (case protein_items of
               p # _ \<Rightarrow> if items p \<noteq> []
                         then [''Then prioritize protein ('' @ join '', '' (item_names p)
                               @ '') for satiety and muscle support. '']
                         else []
             | [] \<Rightarrow> []);
          carb_items = filter (\<lambda>p. sublist ''carbs'' (lower (phase_name p))
                                     \<or> sublist ''vegetable'' (lower (phase_name p))) (phases strat);
          part_carbs =
            concat (map (\<lambda>p. if items p \<noteq> []
                               then [''Add '' @ join '', '' (item_names p) @ '' for energy and fiber. '']
                               else []) carb_items);
          treat_items = filter (\<lambda>p. sublist ''treat'' (lower (phase_name p))) (phases strat);
          part_treats =
            (case treat_items of
               p # _ \<Rightarrow> if items p \<noteq> []
                         then [''Save dessert for last'' @ [CHR 0xE2, CHR 0x80, CHR 0x94]
                               @ ''your stomach will be fuller, so you'll eat less. '']
                         else []
             | [] \<Rightarrow> []);
          part_skip =
            (if skip' \<noteq> []
             then [''Skip or minimize: '' @ join '', '' (map name (take 5 skip')) @ ''. '']
             else []);
          part_goal = (if goal_hint goal \<noteq> [] then [goal_hint goal] else []);
          parts = part_starter @ part_protein @ part_carbs @ part_treats @ part_skip @ part_goal;
          text = strip (concat parts)
      in if text \<noteq> [] then text
         else ''Follow the phases in order for optimal satiety and nutrition.'')"

definition StrategyPlanningAgent_process ::
  "DishWithStomachImpact list \<Rightarrow> DishWithStomachImpact list \<Rightarrow> string \<Rightarrow> int
     \<Rightarrow> strategy \<times> string" where
  "StrategyPlanningAgent_process selected_dishes skip_dishes goal calorie_limit' =
     (let strat = build_strategy selected_dishes skip_dishes calorie_limit';
          explanation' = generate_explanation strat goal selected_dishes skip_dishes
      in (strat, explanation'))"

section \<open>Pipeline (agents/pipeline.py)\<close>

text \<open>
  A manual dish is the dictionary \<^verbatim>\<open>_detected_dish_from_manual\<close> reads: the name, and the
  mass and the cooking method where the key is given (\<open>None\<close> is a key left out). A mass
  that is given is a number, the type of the field of \<open>DetectedDish\<close> it fills.
\<close>

record manual_dish =
  m_name :: string
  m_estimated_grams :: "real option"
  m_cooking_method :: "string option"

definition detected_dish_from_manual :: "manual_dish \<Rightarrow> DetectedDish" where
  "detected_dish_from_manual d =
     \<lparr>name = m_name d,
      confidence = 9 / 10,
      estimated_portion_density = 1,
      cooking_method = m_cooking_method d,
      cuisine_type = None,
      estimated_grams = (case m_estimated_grams d of None \<Rightarrow> 100 | Some g \<Rightarrow> g),
      bounding_box = None\<rparr>"

record nutrition_summary =
  total_available_calories :: real
  total_protein_g :: real
  total_fat_g :: real
  total_carbs_g :: real
  total_fiber_g :: real
  total_glycemic_load :: real
  dish_count :: nat

record digestion_profiles =
  fast :: nat
  medium :: nat
  slow :: nat

record stomach_simulation =
  total_volume_ml :: real
  selected_volume_ml :: real
  capacity_ml :: real
  avg_satiety_score :: real
  profiles :: digestion_profiles

text \<open>
  The strategy of a response is the planner's, or the four-key dictionary of the empty
  response (no phases, no skips, both totals 0).
\<close>

datatype strategy_dict = Strategy strategy | EmptyStrategy

record response =
  detected_dishes :: "DetectedDish list"
  nutrition_summary_of :: "nutrition_summary option"
  stomach_simulation_of :: "stomach_simulation option"
  strategy_of :: strategy_dict
  explanation :: string
  confidence_overall :: real

definition build_nutrition_summary :: "DishWithNutrition list \<Rightarrow> nutrition_summary" where
  "build_nutrition_summary dishes =
     (let total = (\<lambda>f. \<Sum>d\<leftarrow>dishes. f (nutrition_per_100g d) * (estimated_grams d / 100))
      in \<lparr>total_available_calories = py_round (total calories) 1,
          total_protein_g = py_round (total protein) 1,
          total_fat_g = py_round (total fat) 1,
          total_carbs_g = py_round (total carbs) 1,
          total_fiber_g = py_round (total fiber) 1,
          total_glycemic_load = py_round (total glycemic_load) 1,
          dish_count = length dishes\<rparr>)"

definition build_stomach_simulation ::
  "DishWithStomachImpact list \<Rightarrow> DishWithStomachImpact list \<Rightarrow> stomach_simulation" where
  "build_stomach_simulation dishes selected =
     (let total_vol = (\<Sum>d\<leftarrow>dishes. volume_ml (stomach_impact d));
          selected_vol = (\<Sum>d\<leftarrow>selected. volume_ml (stomach_impact d));
          avg_satiety = (if selected \<noteq> []
                         then (\<Sum>d\<leftarrow>selected. satiety_score (stomach_impact d)) / of_nat (length selected)
                         else 0);
          count = (\<lambda>speed. length (filter (\<lambda>d. digestion_speed (stomach_impact d) = speed) selected))
      in \<lparr>total_volume_ml = py_round total_vol 1,
          selected_volume_ml = py_round selected_vol 1,
          capacity_ml = 1350,
          avg_satiety_score = py_round avg_satiety 2,
          profiles = \<lparr>fast = count ''fast'', medium = count ''medium'', slow = count ''slow''\<rparr>\<rparr>)"

definition empty_response :: "string \<Rightarrow> response" where
  "empty_response msg =
     \<lparr>detected_dishes = [],
      nutrition_summary_of = None,
      stomach_simulation_of = None,
      strategy_of = EmptyStrategy,
      explanation = msg,
      confidence_overall = 0\<rparr>"

text \<open>\<^verbatim>\<open>calorie_limit or settings.DEFAULT_CALORIE_LIMIT\<close>.\<close>

definition or_default :: "int option \<Rightarrow> int" where
  "or_default cl =
     (case cl of None \<Rightarrow> DEFAULT_CALORIE_LIMIT
      | Some c \<Rightarrow> if c = 0 then DEFAULT_CALORIE_LIMIT else c)"

definition run_rest_of_pipeline ::
  "set_iteration \<Rightarrow> DetectedDish list \<Rightarrow> string \<Rightarrow> int option \<Rightarrow> string list \<Rightarrow> string list
     \<Rightarrow> response" where
  "run_rest_of_pipeline it detected goal calorie_limit' allergies dietary_filters =
     (if detected = [] then empty_response ''No dishes detected.''
      else
        let with_nutrition = NutritionAgent_process detected;
            with_stomach = StomachPhysicsAgent_process with_nutrition;
            opt = GoalOptimizationAgent_init (Some (or_default calorie_limit')) STOMACH_CAPACITY_ML;
            (selected, skip') =
               GoalOptimizationAgent_process opt it with_stomach goal
                 (Some allergies) (Some dietary_filters);
            (strat, explanation') =
               StrategyPlanningAgent_process selected skip' goal (or_default calorie_limit');
            summary = build_nutrition_summary with_nutrition;
            simulation = build_stomach_simulation with_stomach selected;
            confidence' = (if detected \<noteq> []
                           then (\<Sum>d\<leftarrow>detected. confidence d) / of_nat (length detected)
                           else 0)
        in \<lparr>detected_dishes = detected,
            nutrition_summary_of = Some summary,
            stomach_simulation_of = Some simulation,
            strategy_of = Strategy strat,
            explanation = explanation',
            confidence_overall = py_round confidence' 2\<rparr>)"

definition run_pipeline_manual ::
  "set_iteration \<Rightarrow> manual_dish list \<Rightarrow> string \<Rightarrow> int option
     \<Rightarrow> string list option \<Rightarrow> string list option \<Rightarrow> response" where
  "run_pipeline_manual it dishes goal calorie_limit' allergies dietary_filters =
     (let detected = map detected_dish_from_manual dishes
      in run_rest_of_pipeline it detected goal calorie_limit'
           (case allergies of None \<Rightarrow> [] | Some a \<Rightarrow> a)
           (case dietary_filters of None \<Rightarrow> [] | Some f \<Rightarrow> f))"

section \<open>Invariants and example inputs\<close>

text \<open>
  The invariant of the selection loop: the two running totals are the sums over the
  dishes selected so far, and both are within their bounds.
\<close>

definition in_bounds :: "GoalOptimizationAgent \<Rightarrow> selection \<Rightarrow> bool" where
  "in_bounds a st =
     (case st of (sel, tc, tv) \<Rightarrow>
        tc = sum_list (map dish_cal sel) \<and> tv = sum_list (map dish_vol sel)
        \<and> tc \<le> of_int (calorie_limit a) \<and> tv \<le> stomach_capacity_ml a * (11 / 10))"

text \<open>The characters of the text of the nutrition table, apart from those of its keys.\<close>

definition table_chars :: "char set" where
  "table_chars = set ''{}': ,.0123456789calproteinfatcarbsfibergl''"

text \<open>
  Two dishes as the nutrition and stomach agents hand them to the allocator: a manual
  ``steak'' of 1000 g and a manual ``rice'' of the default 100 g.
\<close>

definition steak_1kg :: DishWithStomachImpact where
  "steak_1kg =
     \<lparr>name = ''steak'', confidence = 9 / 10, estimated_portion_density = 1,
      cooking_method = None, cuisine_type = None, estimated_grams = 1000, bounding_box = None,
      nutrition_per_100g =
        \<lparr>calories = 271, protein = 26, fat = 18, carbs = 0, fiber = 0, glycemic_load = 0,
         nd_confidence = 9 / 10\<rparr>,
      stomach_impact =
        \<lparr>volume_ml = 1000, satiety_score = 799 / 10, digestion_speed = ''slow'',
         fullness_contribution = 1\<rparr>\<rparr>"

definition rice_100g :: DishWithStomachImpact where
  "rice_100g =
     \<lparr>name = ''rice'', confidence = 9 / 10, estimated_portion_density = 1,
      cooking_method = None, cuisine_type = None, estimated_grams = 100, bounding_box = None,
      nutrition_per_100g =
        \<lparr>calories = 130, protein = 27 / 10, fat = 3 / 10, carbs = 28, fiber = 4 / 10,
         glycemic_load = 23, nd_confidence = 9 / 10\<rparr>,
      stomach_impact =
        \<lparr>volume_ml = 100, satiety_score = 8337 / 100, digestion_speed = ''medium'',
         fullness_contribution = 692 / 1000\<rparr>\<rparr>"

text \<open>The allocator the pipeline builds for a calorie limit of 2000 and of 3000.\<close>

definition agent_2000 :: GoalOptimizationAgent where
  "agent_2000 = GoalOptimizationAgent_init (Some 2000) STOMACH_CAPACITY_ML"

definition agent_3000 :: GoalOptimizationAgent where
  "agent_3000 = GoalOptimizationAgent_init (Some 3000) STOMACH_CAPACITY_ML"

text \<open>A dish entered by hand with its name alone.\<close>

definition named :: "string \<Rightarrow> DetectedDish" where
  "named n = detected_dish_from_manual \<lparr>m_name = n, m_estimated_grams = None, m_cooking_method = None\<rparr>"

text \<open>
  Auxiliary notions of the planner: the cap of a portion before rounding, the dishes of a
  phase, the phase names, and the keys of the groups in sorted order.
\<close>

definition portion_cap :: "DishWithStomachImpact \<Rightarrow> real \<Rightarrow> real \<Rightarrow> real" where
  "portion_cap dish cal vol =
     (let vol_per_100 = (if estimated_grams dish \<noteq> 0
                         then volume_ml (stomach_impact dish) / (estimated_grams dish / 100)
                         else 100);
          max_by_cal = (if calories (nutrition_per_100g dish) > 0
                        then (cal / calories (nutrition_per_100g dish)) * 100 else 500);
          max_by_vol = (if vol_per_100 > 0 then (vol / vol_per_100) * 100 else 500)
      in min (estimated_grams dish) (min max_by_cal (min max_by_vol 250)))"

definition members :: "string \<Rightarrow> DishWithStomachImpact list \<Rightarrow> DishWithStomachImpact list" where
  "members k sel = filter (\<lambda>d. classify_phase d = k) sel"

definition phase_names :: "string set" where
  "phase_names = {''starter'', ''protein'', ''vegetables'', ''carbs'', ''treats''}"

definition group_of :: "(string \<times> DishWithStomachImpact list) list \<Rightarrow> string \<Rightarrow> DishWithStomachImpact list" where
  "group_of g k = (case map_of g k of Some ds \<Rightarrow> ds | None \<Rightarrow> [])"

definition sorted_names :: "DishWithStomachImpact list \<Rightarrow> string list" where
  "sorted_names sel = sort_key phase_order_of (map fst (phase_groups sel))"

text \<open>
  Further example inputs: a rice of 10 g and a chicken dish as the first two agents hand
  them on, the manual dishes they come from, and the keyword sets walked in reverse.
\<close>

definition rice_10g :: DishWithStomachImpact where
  "rice_10g =
     \<lparr>name = ''rice'', confidence = 9 / 10, estimated_portion_density = 1,
      cooking_method = None, cuisine_type = None, estimated_grams = 10, bounding_box = None,
      nutrition_per_100g =
        \<lparr>calories = 130, protein = 27 / 10, fat = 3 / 10, carbs = 28, fiber = 4 / 10,
         glycemic_load = 23, nd_confidence = 9 / 10\<rparr>,
      stomach_impact =
        \<lparr>volume_ml = 10, satiety_score = 8337 / 100, digestion_speed = ''medium'',
         fullness_contribution = 69 / 1000\<rparr>\<rparr>"

definition chicken_150g :: DishWithStomachImpact where
  "chicken_150g =
     \<lparr>name = ''Grilled Chicken'', confidence = 9 / 10, estimated_portion_density = 1,
      cooking_method = None, cuisine_type = None, estimated_grams = 150, bounding_box = None,
      nutrition_per_100g =
        \<lparr>calories = 165, protein = 31, fat = 36 / 10, carbs = 0, fiber = 0,
         glycemic_load = 0, nd_confidence = 9 / 10\<rparr>,
      stomach_impact =
        \<lparr>volume_ml = 150, satiety_score = 12081 / 100, digestion_speed = ''medium'',
         fullness_contribution = 1\<rparr>\<rparr>"

definition manual_rice :: manual_dish where
  "manual_rice = \<lparr>m_name = ''rice'', m_estimated_grams = None, m_cooking_method = None\<rparr>"

definition manual_steak :: manual_dish where
  "manual_steak = \<lparr>m_name = ''steak'', m_estimated_grams = Some 1000, m_cooking_method = None\<rparr>"

definition manual_rice_10g :: manual_dish where
  "manual_rice_10g = \<lparr>m_name = ''rice'', m_estimated_grams = Some 10, m_cooking_method = None\<rparr>"

definition manual_chicken :: manual_dish where
  "manual_chicken = \<lparr>m_name = ''Grilled Chicken'', m_estimated_grams = Some 150, m_cooking_method = None\<rparr>"

text \<open>A name with a trailing tab, which \<^verbatim>\<open>strip\<close> removes.\<close>

definition rice_tab :: string where
  "rice_tab = ''rice'' @ [CHR 0x09]"

definition reverse_order :: set_iteration where
  "reverse_order =
     \<lparr>non_vegan_iter = rev (non_vegan_iter source_order),
      non_veg_iter = rev (non_veg_iter source_order)\<rparr>"

section \<open>Properties\<close>

lemmas string_simps = lower_def lower_char_def ascii_uppercase_def ascii_lowercase_def
  any_in_def sublist_code

subsection \<open>The text of the nutrition table\<close>

lemma sublist_join: "x \<in> set xs \<Longrightarrow> sublist x (join sep xs)"
proof (induction sep xs rule: join.induct)
  case (1 sep) then show ?case by simp
next
  case (2 sep x') then show ?case by simp
next
  case (3 sep x' y ys)
  show ?case
  proof (cases "x = x'")
    case True then show ?thesis by simp
  next
    case False
    with 3 have "sublist x (join sep (y # ys))" by simp
    then have "sublist x ((x' @ sep) @ join sep (y # ys))"
      by (rule sublist_order.order.trans) (rule suffix_imp_sublist, rule suffix_appendI, simp)
    then show ?thesis by simp
  qed
qed

lemma key_in_str_entry: "sublist (fst e) (str_entry e)"
  unfolding str_entry_def by (rule sublist_appendI)

lemma key_in_str_db:
  assumes "e \<in> set db"
  shows "sublist (fst e) (str_db db)"
proof -
  have "sublist (str_entry e) (join '', '' (map str_entry db))"
    using assms by (intro sublist_join) simp
  then have "sublist (str_entry e) (str_db db)"
    unfolding str_db_def by (rule sublist_order.order.trans) (rule sublist_appendI)
  with key_in_str_entry show ?thesis by (rule sublist_order.order.trans)
qed

lemma digit_char: "(n::nat) < 10 \<Longrightarrow> digits ! n \<in> table_chars"
proof -
  assume "n < 10"
  then have "digits ! n \<in> set digits" by (intro nth_mem) (simp add: digits_def)
  moreover have "set digits \<subseteq> table_chars" by (simp add: digits_def table_chars_def)
  ultimately show ?thesis by blast
qed

lemma set_str_nat: "set (str_nat n) \<subseteq> table_chars"
proof (induction n rule: str_nat.induct)
  case (1 n)
  show ?case
  proof (cases "n < 10")
    case True
    then show ?thesis by (subst str_nat.simps) (simp add: digit_char)
  next
    case False
    then have "n mod 10 < 10" by simp
    with False 1 show ?thesis by (subst str_nat.simps) (simp add: digit_char)
  qed
qed

lemma set_num_repr: "set (num_repr v) \<subseteq> table_chars"
proof (cases v)
  case (PyInt n) then show ?thesis by (simp add: set_str_nat)
next
  case (PyFloat a b)
  have "CHR ''.'' \<in> table_chars" by (simp add: table_chars_def)
  with PyFloat show ?thesis using set_str_nat[of a] set_str_nat[of b] by simp
qed

lemma set_str_row: "set (str_row r) \<subseteq> table_chars"
proof -
  have "set ''{'cal': '' \<subseteq> table_chars" "set '', 'protein': '' \<subseteq> table_chars"
    "set '', 'fat': '' \<subseteq> table_chars" "set '', 'carbs': '' \<subseteq> table_chars"
    "set '', 'fiber': '' \<subseteq> table_chars" "set '', 'gl': '' \<subseteq> table_chars" "set ''}'' \<subseteq> table_chars"
    by (simp_all add: table_chars_def)
  then show ?thesis
    unfolding str_row_def set_append using set_num_repr by (intro Un_least) auto
qed

lemma set_str_entry: "set (str_entry e) \<subseteq> table_chars \<union> set (fst e)"
proof -
  have q: "set [CHR 0x27] \<subseteq> table_chars" and c: "set '': '' \<subseteq> table_chars"
    by (simp_all add: table_chars_def)
  show ?thesis
    unfolding str_entry_def set_append
    using q c set_str_row [of "snd e"] by blast
qed

lemma set_join_le:
  "set sep \<subseteq> A \<Longrightarrow> (\<And>x. x \<in> set xs \<Longrightarrow> set x \<subseteq> A) \<Longrightarrow> set (join sep xs) \<subseteq> A"
  by (induction sep xs rule: join.induct) auto

lemma set_str_db: "set (str_db db) \<subseteq> table_chars \<union> \<Union> (set ` fst ` set db)"
proof -
  let ?A = "table_chars \<union> \<Union> (set ` fst ` set db)"
  have open_brace: "set ''{'' \<subseteq> table_chars" and close_brace: "set ''}'' \<subseteq> table_chars"
    and comma: "set '', '' \<subseteq> table_chars"
    by (simp_all add: table_chars_def)
  have "set x \<subseteq> ?A" if "x \<in> set (map str_entry db)" for x
  proof -
    from that obtain e where e: "e \<in> set db" and x: "x = str_entry e" by auto
    have "set (fst e) \<subseteq> \<Union> (set ` fst ` set db)" using e by blast
    with set_str_entry [of e] show ?thesis unfolding x by blast
  qed
  moreover have "set '', '' \<subseteq> ?A" using comma by (rule subset_trans) (rule Un_upper1)
  ultimately have "set (join '', '' (map str_entry db)) \<subseteq> ?A"
    by (rule set_join_le [rotated])
  moreover have "set ''{'' \<subseteq> ?A" using open_brace by (rule subset_trans) (rule Un_upper1)
  moreover have "set ''}'' \<subseteq> ?A" using close_brace by (rule subset_trans) (rule Un_upper1)
  ultimately show ?thesis
    unfolding str_db_def set_append by (intro Un_least)
qed

lemma y_not_in_keys: "CHR ''y'' \<notin> \<Union> (set ` fst ` set load_nutrition_db)"
  by (simp add: load_nutrition_db_def)

lemma y_not_in_table: "CHR ''y'' \<notin> set (str_db load_nutrition_db)"
proof -
  have "CHR ''y'' \<notin> table_chars" by (simp add: table_chars_def)
  with y_not_in_keys set_str_db[of load_nutrition_db] show ?thesis by blast
qed

lemma not_in_table: "CHR ''y'' \<in> set s \<Longrightarrow> \<not> sublist s (str_db load_nutrition_db)"
  using y_not_in_table set_mono_sublist by blast

lemma char_not_in_table:
  assumes "c \<notin> table_chars" and "c \<notin> \<Union> (set ` fst ` set load_nutrition_db)" and "c \<in> set s"
  shows "\<not> sublist s (str_db load_nutrition_db)"
proof
  assume "sublist s (str_db load_nutrition_db)"
  then have "set s \<subseteq> set (str_db load_nutrition_db)" by (rule set_mono_sublist)
  with assms(3) set_str_db [of load_nutrition_db] assms(1,2) show False by blast
qed

subsection \<open>Nutrition confidence\<close>

lemma name_named: "name (named n) = n"
  by (simp add: named_def detected_dish_from_manual_def)

lemma lower_xyz: "lower ''xyzfood123'' = ''xyzfood123''"
  by (simp add: lower_def lower_char_def ascii_uppercase_def ascii_lowercase_def)

lemma lookup_xyz: "lookup load_nutrition_db ''xyzfood123'' = default_row"
  by code_simp

lemma lookup_spicy: "lookup load_nutrition_db ''spicy chicken'' = mk_row (PyInt 165) (PyInt 31) (PyFloat 3 6) (PyInt 0) (PyInt 0) (PyInt 0)"
  by code_simp

lemma lookup_steak: "lookup load_nutrition_db ''steak'' = mk_row (PyInt 271) (PyInt 26) (PyInt 18) (PyInt 0) (PyInt 0) (PyInt 0)"
  by code_simp

lemma conf_cases:
  "nd_confidence (nutrition_per_100g (enrich db d)) =
     (if sublist (lower (name d)) (str_db db) then 9 / 10 else 7 / 10)"
  by (simp add: enrich_def Let_def)

lemma keys_stripped: "k \<in> fst ` set load_nutrition_db \<Longrightarrow> strip k = k"
  by (auto simp: load_nutrition_db_def strip_def is_space_def)

lemma lookup_exact:
  assumes "map_of load_nutrition_db (lower n) = Some r"
  shows "lookup load_nutrition_db n = r"
proof -
  from assms have "lower n \<in> fst ` set load_nutrition_db"
    by (metis domI dom_map_of_conv_image_fst)
  then have "strip (lower n) = lower n" by (rule keys_stripped)
  with assms show ?thesis by (simp add: lookup_def)
qed

lemma lookup_fallback:
  assumes "map_of db (strip (lower n)) = None"
    and "\<not> list_ex (\<lambda>(key, val). sublist key (strip (lower n)) \<or> sublist (strip (lower n)) key) db"
  shows "lookup db n = default_row"
proof -
  from assms(2) have "find (\<lambda>(key, val). sublist key (strip (lower n)) \<or> sublist (strip (lower n)) key) db = None"
    by (auto simp: find_None_iff list_ex_iff)
  with assms(1) show ?thesis by (simp add: lookup_def)
qed

lemma map_of_steak:
  "map_of load_nutrition_db ''steak''
     = Some (mk_row (PyInt 271) (PyInt 26) (PyInt 18) (PyInt 0) (PyInt 0) (PyInt 0))"
  by (simp add: load_nutrition_db_def)

lemma lower_steak: "lower ''steak'' = ''steak''"
  by (simp add: string_simps)

lemma process_names: "map name (NutritionAgent_process ds) = map name ds"
  by (simp add: NutritionAgent_process_def enrich_def Let_def comp_def)

text \<open>
  C3, amended. For every input dish the enricher attaches a profile, in the order and the
  number of the input, whose confidence is one of exactly two values, 0.9 and 0.7: it is
  0.9, with the profile of that key, when the lower-cased name is an exact key of the
  reference table. There is no low tier: an unrecognized name, one whose normalized form
  is no key of the table, contains no key and is part of no key, receives the generic
  fallback profile with one of the same two values, and for ``xyzfood123'' that value is
  0.7.
\<close>

theorem nutrition_confidence_two_values:
  "(nd_confidence (nutrition_per_100g (enrich load_nutrition_db d)) = 9 / 10
      \<or> nd_confidence (nutrition_per_100g (enrich load_nutrition_db d)) = 7 / 10)
   \<and> (map_of load_nutrition_db (lower (name d)) = Some r
        \<longrightarrow> lookup load_nutrition_db (name d) = r
          \<and> nd_confidence (nutrition_per_100g (enrich load_nutrition_db d)) = 9 / 10)
   \<and> (map_of load_nutrition_db (strip (lower (name d))) = None
        \<and> \<not> list_ex (\<lambda>(key, val). sublist key (strip (lower (name d)))
                                    \<or> sublist (strip (lower (name d))) key) load_nutrition_db
        \<longrightarrow> lookup load_nutrition_db (name d) = default_row)
   \<and> (name d = ''xyzfood123''
        \<longrightarrow> lookup load_nutrition_db (name d) = default_row
          \<and> nd_confidence (nutrition_per_100g (enrich load_nutrition_db d)) = 7 / 10)
   \<and> map name (NutritionAgent_process ds) = map name ds"
proof (intro conjI impI)
  show "nd_confidence (nutrition_per_100g (enrich load_nutrition_db d)) = 9 / 10
      \<or> nd_confidence (nutrition_per_100g (enrich load_nutrition_db d)) = 7 / 10"
    by (simp add: conf_cases)
  show "map name (NutritionAgent_process ds) = map name ds"
    by (rule process_names)
next
  assume key: "map_of load_nutrition_db (lower (name d)) = Some r"
  then show "lookup load_nutrition_db (name d) = r"
    by (rule lookup_exact)
  from key have "(lower (name d), r) \<in> set load_nutrition_db"
    by (rule map_of_SomeD)
  from key_in_str_db [OF this]
  show "nd_confidence (nutrition_per_100g (enrich load_nutrition_db d)) = 9 / 10"
    by (simp add: conf_cases)
next
  assume "map_of load_nutrition_db (strip (lower (name d))) = None
        \<and> \<not> list_ex (\<lambda>(key, val). sublist key (strip (lower (name d)))
                                    \<or> sublist (strip (lower (name d))) key) load_nutrition_db"
  then show "lookup load_nutrition_db (name d) = default_row"
    using lookup_fallback [of load_nutrition_db "name d"] by blast
next
  assume n: "name d = ''xyzfood123''"
  show "lookup load_nutrition_db (name d) = default_row"
    unfolding n by (rule lookup_xyz)
  have "CHR ''y'' \<in> set (lower (name d))"
    unfolding n lower_xyz by simp
  then have "\<not> sublist (lower (name d)) (str_db load_nutrition_db)"
    by (rule not_in_table)
  then show "nd_confidence (nutrition_per_100g (enrich load_nutrition_db d)) = 7 / 10"
    by (simp add: conf_cases)
qed

theorem nutrition_confidence_two_values_witness:
  "nd_confidence (nutrition_per_100g (enrich load_nutrition_db (named ''xyzfood123''))) = 7 / 10
   \<and> lookup load_nutrition_db (name (named ''xyzfood123'')) = default_row
   \<and> map_of load_nutrition_db (lower (name (named ''steak'')))
       = Some (mk_row (PyInt 271) (PyInt 26) (PyInt 18) (PyInt 0) (PyInt 0) (PyInt 0))
   \<and> lookup load_nutrition_db (name (named ''steak''))
       = mk_row (PyInt 271) (PyInt 26) (PyInt 18) (PyInt 0) (PyInt 0) (PyInt 0)
   \<and> nd_confidence (nutrition_per_100g (enrich load_nutrition_db (named ''steak''))) = 9 / 10"
proof -
  have key: "map_of load_nutrition_db (lower (name (named ''steak'')))
       = Some (mk_row (PyInt 271) (PyInt 26) (PyInt 18) (PyInt 0) (PyInt 0) (PyInt 0))"
    by (simp only: name_named lower_steak map_of_steak)
  have xyz: "name (named ''xyzfood123'') = ''xyzfood123''" by (rule name_named)
  from nutrition_confidence_two_values [of "named ''xyzfood123''" default_row "[]"]
    nutrition_confidence_two_values [of "named ''steak''"
      "mk_row (PyInt 271) (PyInt 26) (PyInt 18) (PyInt 0) (PyInt 0) (PyInt 0)" "[]"]
    key xyz
  show ?thesis by blast
qed

lemma lower_spicy: "lower ''spicy chicken'' = ''spicy chicken''"
  by (simp add: lower_def lower_char_def ascii_uppercase_def ascii_lowercase_def)

text \<open>
  C3, as the claim states it, fails: the fallback profile does not come with a confidence
  of its own. ``xyzfood123'' gets the fallback profile and ``spicy chicken'' the profile of
  the key it contains, and both get the confidence 0.7.
\<close>

theorem fallback_confidence_counterexample:
  "lookup load_nutrition_db (name (named ''xyzfood123'')) = default_row
   \<and> nd_confidence (nutrition_per_100g (enrich load_nutrition_db (named ''xyzfood123''))) = 7 / 10
   \<and> lookup load_nutrition_db (name (named ''spicy chicken'')) \<noteq> default_row
   \<and> nd_confidence (nutrition_per_100g (enrich load_nutrition_db (named ''spicy chicken''))) = 7 / 10"
proof -
  have "\<not> sublist (lower ''xyzfood123'') (str_db load_nutrition_db)"
    by (rule not_in_table) (simp add: lower_xyz)
  moreover have "\<not> sublist (lower ''spicy chicken'') (str_db load_nutrition_db)"
    by (rule not_in_table) (simp add: lower_spicy)
  ultimately show ?thesis
    by (simp add: conf_cases name_named lookup_xyz lookup_spicy default_row_def mk_row_def)
qed

text \<open>
  Which of the two values a name gets is decided by a search of the lower-cased name,
  not stripped, in the text of the whole table, where \<^verbatim>\<open>_lookup\<close> strips the name and
  looks at the keys. The field name ``cal'' gets the fallback profile and the confidence
  0.9; a name that is the key ``rice'' followed by a tab gets the profile of that key and
  the confidence 0.7.
\<close>

lemma sublist_cal_row: "sublist ''cal'' (str_row r)"
  unfolding str_row_def by (simp add: sublist_Cons_right)

lemma sublist_cal_table: "sublist ''cal'' (str_db load_nutrition_db)"
proof -
  let ?e = "(''mixed salad'', mk_row (PyInt 18) (PyFloat 1 5) (PyFloat 0 3) (PyFloat 3 5) (PyFloat 1 2) (PyInt 2))"
  have "?e \<in> set load_nutrition_db" by (simp add: load_nutrition_db_def)
  then have "sublist (str_entry ?e) (join '', '' (map str_entry load_nutrition_db))"
    by (intro sublist_join) simp
  then have "sublist (str_entry ?e) (str_db load_nutrition_db)"
    unfolding str_db_def by (rule sublist_order.order.trans) (rule sublist_appendI)
  moreover have "sublist (str_row (snd ?e)) (str_entry ?e)"
    unfolding str_entry_def by (intro suffix_imp_sublist suffix_appendI) simp
  ultimately show ?thesis
    using sublist_cal_row [of "snd ?e"] by (meson sublist_order.order.trans)
qed

lemma lookup_cal: "lookup load_nutrition_db ''cal'' = default_row"
  by code_simp

lemma lower_cal: "lower ''cal'' = ''cal''"
  by (simp add: string_simps)

lemma field_name_confidence:
  "lookup load_nutrition_db (name (named ''cal'')) = default_row
   \<and> nd_confidence (nutrition_per_100g (enrich load_nutrition_db (named ''cal''))) = 9 / 10"
  by (simp add: name_named lookup_cal conf_cases lower_cal sublist_cal_table)

lemma strip_rice_tab: "strip (lower rice_tab) = ''rice''"
  by (simp add: rice_tab_def string_simps strip_def is_space_def)

lemma lookup_key:
  "map_of db (strip (lower n)) = Some r \<Longrightarrow> lookup db n = r"
  by (simp add: lookup_def)

lemma map_of_rice:
  "map_of load_nutrition_db ''rice''
     = Some (mk_row (PyInt 130) (PyFloat 2 7) (PyFloat 0 3) (PyInt 28) (PyFloat 0 4) (PyInt 23))"
  by (simp add: load_nutrition_db_def)

lemma unstripped_name_confidence:
  "map_of load_nutrition_db (strip (lower (name (named rice_tab))))
     = Some (lookup load_nutrition_db (name (named rice_tab)))
   \<and> nd_confidence (nutrition_per_100g (enrich load_nutrition_db (named rice_tab))) = 7 / 10"
proof -
  have "CHR 0x09 \<notin> table_chars" by (simp add: table_chars_def)
  moreover have "CHR 0x09 \<notin> \<Union> (set ` fst ` set load_nutrition_db)"
    by (simp add: load_nutrition_db_def)
  moreover have "CHR 0x09 \<in> set (lower rice_tab)"
    by (simp add: rice_tab_def string_simps)
  ultimately have no: "\<not> sublist (lower rice_tab) (str_db load_nutrition_db)"
    by (rule char_not_in_table)
  have key: "map_of load_nutrition_db (strip (lower rice_tab))
      = Some (mk_row (PyInt 130) (PyFloat 2 7) (PyFloat 0 3) (PyInt 28) (PyFloat 0 4) (PyInt 23))"
    unfolding strip_rice_tab by (rule map_of_rice)
  from lookup_key [OF key] key no show ?thesis
    by (simp only: name_named conf_cases if_False simp_thms)
qed

subsection \<open>The example dishes through the first two agents\<close>

lemma lookup_rice: "lookup load_nutrition_db ''rice'' = mk_row (PyInt 130) (PyFloat 2 7) (PyFloat 0 3) (PyInt 28) (PyFloat 0 4) (PyInt 23)"
  by code_simp

lemma lookup_chicken: "lookup load_nutrition_db ''Grilled Chicken'' = mk_row (PyInt 165) (PyInt 31) (PyFloat 3 6) (PyInt 0) (PyInt 0) (PyInt 0)"
  by code_simp

lemma in_table_steak: "sublist (lower ''steak'') (str_db load_nutrition_db)"
  using key_in_str_db [of "(''steak'', mk_row (PyInt 271) (PyInt 26) (PyInt 18) (PyInt 0) (PyInt 0) (PyInt 0))" load_nutrition_db]
  by (simp add: load_nutrition_db_def string_simps)

lemma in_table_rice: "sublist (lower ''rice'') (str_db load_nutrition_db)"
  using key_in_str_db [of "(''rice'', mk_row (PyInt 130) (PyFloat 2 7) (PyFloat 0 3) (PyInt 28) (PyFloat 0 4) (PyInt 23))" load_nutrition_db]
  by (simp add: load_nutrition_db_def string_simps)

lemma in_table_chicken: "sublist (lower ''Grilled Chicken'') (str_db load_nutrition_db)"
  using key_in_str_db [of "(''grilled chicken'', mk_row (PyInt 165) (PyInt 31) (PyFloat 3 6) (PyInt 0) (PyInt 0) (PyInt 0))" load_nutrition_db]
  by (simp add: load_nutrition_db_def string_simps)

lemmas stage_simps = StomachPhysicsAgent_process_def NutritionAgent_process_def
  detected_dish_from_manual_def enrich_def mk_row_def stomach_impact_of_def volume_ml_of_def
  satiety_score_of_def digestion_speed_of_def STOMACH_CAPACITY_ML_def py_round_def py_round0_def

lemma stages_steak:
  "StomachPhysicsAgent_process (NutritionAgent_process [detected_dish_from_manual manual_steak])
     = [steak_1kg]"
  by (simp add: stage_simps manual_steak_def lookup_steak in_table_steak steak_1kg_def)

lemma stages_rice:
  "StomachPhysicsAgent_process (NutritionAgent_process [detected_dish_from_manual manual_rice])
     = [rice_100g]"
  by (simp add: stage_simps manual_rice_def lookup_rice in_table_rice rice_100g_def)

lemma stages_rice_10g:
  "StomachPhysicsAgent_process (NutritionAgent_process [detected_dish_from_manual manual_rice_10g])
     = [rice_10g]"
  by (simp add: stage_simps manual_rice_10g_def lookup_rice in_table_rice rice_10g_def)

lemma stages_chicken:
  "StomachPhysicsAgent_process (NutritionAgent_process [detected_dish_from_manual manual_chicken])
     = [chicken_150g]"
  by (simp add: stage_simps manual_chicken_def lookup_chicken in_table_chicken chicken_150g_def)

lemma stages_append:
  "StomachPhysicsAgent_process (NutritionAgent_process (xs @ ys))
     = StomachPhysicsAgent_process (NutritionAgent_process xs)
       @ StomachPhysicsAgent_process (NutritionAgent_process ys)"
  by (simp add: StomachPhysicsAgent_process_def NutritionAgent_process_def)

subsection \<open>The selection loop\<close>

lemma select_loop_subset: "set (fst (select_loop a st ds)) \<subseteq> set (fst st) \<union> set ds"
proof (induction ds arbitrary: st)
  case Nil
  show ?case by simp
next
  case (Cons d ds)
  have "set (fst (accept st d)) = insert d (set (fst st))"
    by (cases st) (simp add: accept_def)
  with Cons.IH [of "accept st d"] Cons.IH [of st] show ?case
    by (cases "fits a st d") auto
qed

lemma select_loop_append:
  "select_loop a st (pre @ post) = select_loop a (select_loop a st pre) post"
  by (induction pre arbitrary: st) simp_all

lemma select_loop_prefix: "prefix (fst st) (fst (select_loop a st ds))"
proof (induction ds arbitrary: st)
  case Nil
  show ?case by simp
next
  case (Cons d ds)
  have "prefix (fst st) (fst (accept st d))"
    by (cases st) (simp add: accept_def)
  with Cons.IH [of "accept st d"] Cons.IH [of st] show ?case
    by (cases "fits a st d") (auto intro: prefix_order.trans)
qed

lemma in_bounds_accept: "in_bounds a st \<Longrightarrow> fits a st d \<Longrightarrow> in_bounds a (accept st d)"
  by (cases st) (simp add: in_bounds_def fits_def accept_def)

lemma in_bounds_select_loop: "in_bounds a st \<Longrightarrow> in_bounds a (select_loop a st ds)"
  by (induction ds arbitrary: st) (simp_all add: in_bounds_accept)

lemma set_scored: "set (map snd (scored dishes goal)) = set dishes"
  by (simp add: scored_def image_image)

lemma process_selected:
  assumes "GoalOptimizationAgent_process a it dishes goal al df = (selected, skip')"
    and "filtered it dishes al df \<noteq> []"
  shows "selected = fst (select_loop a ([], 0, 0) (map snd (scored (filtered it dishes al df) goal)))"
  using assms by (simp add: GoalOptimizationAgent_process_def Let_def)

lemma process_selected_subset:
  assumes "GoalOptimizationAgent_process a it dishes goal al df = (selected, skip')"
  shows "set selected \<subseteq> set (filtered it dishes al df)"
proof (cases "filtered it dishes al df = []")
  case True
  with assms show ?thesis by (simp add: GoalOptimizationAgent_process_def)
next
  case False
  show ?thesis
    unfolding process_selected [OF assms False]
    using select_loop_subset [of a "([], 0, 0)" "map snd (scored (filtered it dishes al df) goal)"]
    by (simp only: set_scored) simp
qed

lemma process_skip:
  assumes "GoalOptimizationAgent_process a it dishes goal al df = (selected, skip')"
  shows "skip' = filter (\<lambda>d. d \<notin> set selected) (filtered it dishes al df)"
  using assms
  by (cases "filtered it dishes al df = []")
     (auto simp: GoalOptimizationAgent_process_def Let_def)

text \<open>Evaluation of the allocator on the example dishes.\<close>

lemma scored_steak_rice:
  "map snd (scored [rice_100g, steak_1kg] ''muscle_gain'') = [steak_1kg, rice_100g]"
  by (simp add: scored_def goal_reward_def steak_1kg_def rice_100g_def)

lemma scored_steak_steak:
  "map snd (scored [steak_1kg, steak_1kg] ''muscle_gain'') = [steak_1kg, steak_1kg]"
  by (simp add: scored_def)

lemma steak_not_rice: "steak_1kg \<noteq> rice_100g"
  by (simp add: steak_1kg_def rice_100g_def)

lemma fits_steak_2000: "\<not> fits agent_2000 ([], 0, 0) steak_1kg"
  by (simp add: fits_def agent_2000_def GoalOptimizationAgent_init_def dish_cal_def dish_vol_def
        steak_1kg_def)

lemma fits_rice_2000: "fits agent_2000 ([], 0, 0) rice_100g"
  by (simp add: fits_def agent_2000_def GoalOptimizationAgent_init_def dish_cal_def dish_vol_def
        rice_100g_def STOMACH_CAPACITY_ML_def)

lemma fits_steak_3000: "fits agent_3000 ([], 0, 0) steak_1kg"
  by (simp add: fits_def agent_3000_def GoalOptimizationAgent_init_def dish_cal_def dish_vol_def
        steak_1kg_def STOMACH_CAPACITY_ML_def)

lemma fits_steak_again_3000: "\<not> fits agent_3000 (accept ([], 0, 0) steak_1kg) steak_1kg"
  by (simp add: fits_def accept_def agent_3000_def GoalOptimizationAgent_init_def dish_cal_def
        dish_vol_def steak_1kg_def)

lemma unfiltered: "filtered it dishes None None = dishes"
  by (simp add: filtered_def filter_allergies_def filter_dietary_def)

lemma process_steak_rice:
  "GoalOptimizationAgent_process agent_2000 source_order [rice_100g, steak_1kg] ''muscle_gain''
     None None = ([rice_100g], [steak_1kg])"
  by (simp add: GoalOptimizationAgent_process_def unfiltered scored_steak_rice fits_steak_2000
        fits_rice_2000 accept_def steak_not_rice)

lemma process_steak_steak:
  "GoalOptimizationAgent_process agent_3000 source_order [steak_1kg, steak_1kg] ''muscle_gain''
     None None = ([steak_1kg], [])"
  by (simp add: GoalOptimizationAgent_process_def unfiltered scored_steak_steak fits_steak_3000
        fits_steak_again_3000)
     (simp add: accept_def)

text \<open>
  C1, as the claim states it, fails: under the goal \<open>muscle_gain\<close> the steak of 1000 g is
  first in the sorted order and is not accepted (2710 kcal against a budget of 2000), and
  the rice after it is accepted.
\<close>

theorem later_item_tried_counterexample:
  "map snd (scored [rice_100g, steak_1kg] ''muscle_gain'') = [steak_1kg, rice_100g]
   \<and> steak_1kg \<notin> set (fst (GoalOptimizationAgent_process agent_2000 source_order
                              [rice_100g, steak_1kg] ''muscle_gain'' None None))
   \<and> rice_100g \<in> set (fst (GoalOptimizationAgent_process agent_2000 source_order
                             [rice_100g, steak_1kg] ''muscle_gain'' None None))"
  by (simp add: process_steak_rice scored_steak_rice steak_not_rice)

text \<open>
  C1, amended. The selection is a single pass over the sorted order with no backtracking:
  what is selected is never removed, and an item that would breach either running bound
  at its turn is skipped with the selection and both totals unchanged, and is never tried
  again. The items after it are still tried, each against the totals of the items accepted
  before it.
\<close>

theorem skipped_item_not_revisited:
  "select_loop a st (pre @ d # post) =
     (if fits a (select_loop a st pre) d
      then select_loop a (accept (select_loop a st pre) d) post
      else select_loop a (select_loop a st pre) post)
   \<and> prefix (fst st) (fst (select_loop a st ds))
   \<and> (filtered it dishes al df \<noteq> [] \<longrightarrow>
        fst (GoalOptimizationAgent_process a it dishes goal al df)
          = fst (select_loop a ([], 0, 0) (map snd (scored (filtered it dishes al df) goal))))"
proof (intro conjI impI)
  have "select_loop a st (pre @ d # post) = select_loop a (select_loop a st pre) (d # post)"
    by (rule select_loop_append)
  then show "select_loop a st (pre @ d # post) =
     (if fits a (select_loop a st pre) d
      then select_loop a (accept (select_loop a st pre) d) post
      else select_loop a (select_loop a st pre) post)"
    by simp
  show "prefix (fst st) (fst (select_loop a st ds))"
    by (rule select_loop_prefix)
next
  assume "filtered it dishes al df \<noteq> []"
  then show "fst (GoalOptimizationAgent_process a it dishes goal al df)
      = fst (select_loop a ([], 0, 0) (map snd (scored (filtered it dishes al df) goal)))"
    by (simp add: GoalOptimizationAgent_process_def Let_def)
qed

theorem skipped_item_not_revisited_witness:
  "select_loop agent_2000 ([], 0, 0) ([] @ steak_1kg # [rice_100g])
     = select_loop agent_2000 ([], 0, 0) [rice_100g]
   \<and> fst (select_loop agent_2000 ([], 0, 0) [rice_100g]) = [rice_100g]
   \<and> filtered source_order [rice_100g, steak_1kg] None None \<noteq> []
   \<and> fst (GoalOptimizationAgent_process agent_2000 source_order [rice_100g, steak_1kg]
            ''muscle_gain'' None None)
       = fst (select_loop agent_2000 ([], 0, 0) [steak_1kg, rice_100g])"
  using skipped_item_not_revisited [of agent_2000 "([], 0, 0)" "[]" steak_1kg "[rice_100g]" "[]"
      source_order "[rice_100g, steak_1kg]" None None "''muscle_gain''"]
  by (simp add: fits_steak_2000 fits_rice_2000 accept_def unfiltered scored_steak_rice)

subsection \<open>The allocator's outputs\<close>

text \<open>
  The two outputs of the allocator as sets: no dish is both selected and skipped, and the
  dishes of the filtered input are those selected together with those skipped. Where no
  dish occurs twice in the filtered input the outputs partition it occurrence by
  occurrence.
\<close>

lemma allocator_outputs_as_sets:
  assumes "GoalOptimizationAgent_process a it dishes goal al df = (selected, skip')"
  shows "set selected \<inter> set skip' = {}
       \<and> set selected \<union> set skip' = set (filtered it dishes al df)"
  using process_selected_subset [OF assms] process_skip [OF assms] by auto

lemma select_loop_distinct:
  "distinct (fst st @ ds) \<Longrightarrow> distinct (fst (select_loop a st ds))"
proof (induction ds arbitrary: st)
  case Nil
  then show ?case by simp
next
  case (Cons d ds)
  have "fst (accept st d) = fst st @ [d]"
    by (cases st) (simp add: accept_def)
  with Cons.prems have "distinct (fst (accept st d) @ ds)" and "distinct (fst st @ ds)"
    by auto
  with Cons.IH [of "accept st d"] Cons.IH [of st] show ?case
    by (cases "fits a st d") simp_all
qed

lemma mset_scored: "mset (map snd (scored dishes goal)) = mset dishes"
proof -
  have "mset (map snd (scored dishes goal))
      = image_mset snd (mset (map (\<lambda>d. (goal_reward d goal, d)) dishes))"
    by (simp add: scored_def)
  also have "\<dots> = mset dishes"
    by (simp add: image_mset.compositionality comp_def)
  finally show ?thesis .
qed

lemma allocator_partition_distinct:
  assumes "GoalOptimizationAgent_process a it dishes goal al df = (selected, skip')"
    and "distinct (filtered it dishes al df)"
  shows "mset selected + mset skip' = mset (filtered it dishes al df)"
proof (cases "filtered it dishes al df = []")
  case True
  with assms(1) show ?thesis by (simp add: GoalOptimizationAgent_process_def)
next
  case False
  let ?F = "filtered it dishes al df"
  have "distinct (map snd (scored ?F goal))"
    using mset_scored [of ?F goal] assms(2) by (metis mset_eq_imp_distinct_iff)
  then have "distinct selected"
    unfolding process_selected [OF assms(1) False]
    by (intro select_loop_distinct) simp
  moreover have "set selected \<subseteq> set ?F"
    by (rule process_selected_subset [OF assms(1)])
  ultimately have "mset selected = mset (filter (\<lambda>d. d \<in> set selected) ?F)"
    using assms(2) by (intro iffD1 [OF set_eq_iff_mset_eq_distinct]) auto
  moreover have "skip' = filter (\<lambda>d. d \<notin> set selected) ?F"
    by (rule process_skip [OF assms(1)])
  ultimately show ?thesis
    by (simp add: multiset_partition [symmetric])
qed

text \<open>
  C4. The outputs of the allocator do not partition a filtered input that holds equal
  dishes of which one is selected and another refused: \<^verbatim>\<open>d not in selected\<close> compares by
  value, so the refused dish is left out of the skipped list as well. Two manual steaks
  of 1000 g with a calorie limit of 3000 reach the allocator as two equal dishes; the
  first is selected, the second is refused by both bounds, and the skipped list is empty.
\<close>

theorem duplicate_dish_lost:
  "StomachPhysicsAgent_process (NutritionAgent_process
      (map detected_dish_from_manual [manual_steak, manual_steak])) = [steak_1kg, steak_1kg]
   \<and> filtered source_order [steak_1kg, steak_1kg] None None = [steak_1kg, steak_1kg]
   \<and> GoalOptimizationAgent_process agent_3000 source_order [steak_1kg, steak_1kg] ''muscle_gain''
        None None = ([steak_1kg], [])
   \<and> mset (fst (GoalOptimizationAgent_process agent_3000 source_order [steak_1kg, steak_1kg]
                   ''muscle_gain'' None None))
       + mset (snd (GoalOptimizationAgent_process agent_3000 source_order [steak_1kg, steak_1kg]
                     ''muscle_gain'' None None))
       \<noteq> mset (filtered source_order [steak_1kg, steak_1kg] None None)"
proof -
  have "StomachPhysicsAgent_process (NutritionAgent_process
      (map detected_dish_from_manual [manual_steak, manual_steak])) = [steak_1kg, steak_1kg]"
    using stages_append [of "[detected_dish_from_manual manual_steak]"
        "[detected_dish_from_manual manual_steak]"]
    by (simp add: stages_steak)
  then show ?thesis
    by (simp add: process_steak_steak unfiltered)
qed

text \<open>
  C6, as the claim states it, fails for a negative calorie budget and for a negative
  capacity: nothing is selected, and the sum over no dishes is 0, which is above the bound.
\<close>

theorem negative_budget_counterexample:
  "fst (GoalOptimizationAgent_process (GoalOptimizationAgent_init (Some (- 1)) STOMACH_CAPACITY_ML)
          source_order [rice_100g] ''fat_loss'' None None) = []
   \<and> \<not> (\<Sum>d\<leftarrow>fst (GoalOptimizationAgent_process
                      (GoalOptimizationAgent_init (Some (- 1)) STOMACH_CAPACITY_ML)
                      source_order [rice_100g] ''fat_loss'' None None).
          calories (nutrition_per_100g d) * (estimated_grams d / 100))
        \<le> of_int (calorie_limit (GoalOptimizationAgent_init (Some (- 1)) STOMACH_CAPACITY_ML))
   \<and> fst (GoalOptimizationAgent_process (GoalOptimizationAgent_init (Some 2000) (- 1))
          source_order [rice_100g] ''fat_loss'' None None) = []
   \<and> \<not> (\<Sum>d\<leftarrow>fst (GoalOptimizationAgent_process (GoalOptimizationAgent_init (Some 2000) (- 1))
                      source_order [rice_100g] ''fat_loss'' None None).
          volume_ml (stomach_impact d))
        \<le> stomach_capacity_ml (GoalOptimizationAgent_init (Some 2000) (- 1)) * 1.10"
  by (simp add: GoalOptimizationAgent_process_def unfiltered scored_def fits_def
        GoalOptimizationAgent_init_def dish_cal_def dish_vol_def rice_100g_def)

text \<open>
  C6, amended. For a calorie budget and a stomach capacity that are not negative, and for
  every input list and goal, the calories of the selected dishes (calories per 100 g times
  mass / 100) sum to at most the calorie budget, and their volumes to at most the stomach
  capacity times 1.10.
\<close>

theorem allocator_within_bounds:
  assumes "0 \<le> calorie_limit a" and "0 \<le> stomach_capacity_ml a"
    and "GoalOptimizationAgent_process a it dishes goal al df = (selected, skip')"
  shows "(\<Sum>d\<leftarrow>selected. calories (nutrition_per_100g d) * (estimated_grams d / 100))
           \<le> of_int (calorie_limit a)
       \<and> (\<Sum>d\<leftarrow>selected. volume_ml (stomach_impact d)) \<le> stomach_capacity_ml a * 1.10"
proof (cases "filtered it dishes al df = []")
  case True
  with assms show ?thesis by (simp add: GoalOptimizationAgent_process_def)
next
  case False
  define r where "r = select_loop a ([], 0, 0) (map snd (scored (filtered it dishes al df) goal))"
  have sel: "selected = fst r"
    unfolding r_def by (rule process_selected [OF assms(3) False])
  have "in_bounds a ([], 0, 0)"
    using assms(1,2) by (simp add: in_bounds_def)
  then have "in_bounds a r"
    unfolding r_def by (rule in_bounds_select_loop)
  then show ?thesis
    using sel by (cases r) (simp add: in_bounds_def dish_cal_def [abs_def] dish_vol_def [abs_def])
qed

theorem allocator_within_bounds_witness:
  "0 \<le> calorie_limit agent_2000 \<and> 0 \<le> stomach_capacity_ml agent_2000
   \<and> GoalOptimizationAgent_process agent_2000 source_order [rice_100g, steak_1kg] ''muscle_gain''
        None None = ([rice_100g], [steak_1kg])
   \<and> (\<Sum>d\<leftarrow>[rice_100g]. calories (nutrition_per_100g d) * (estimated_grams d / 100))
        \<le> of_int (calorie_limit agent_2000)
   \<and> (\<Sum>d\<leftarrow>[rice_100g]. volume_ml (stomach_impact d)) \<le> stomach_capacity_ml agent_2000 * 1.10"
proof -
  have h1: "0 \<le> calorie_limit agent_2000"
    by (simp add: agent_2000_def GoalOptimizationAgent_init_def)
  have h2: "0 \<le> stomach_capacity_ml agent_2000"
    by (simp add: agent_2000_def GoalOptimizationAgent_init_def STOMACH_CAPACITY_ML_def)
  show ?thesis
    using allocator_within_bounds [OF h1 h2 process_steak_rice] h1 h2 process_steak_rice
    by simp
qed

subsection \<open>Rounding and portions\<close>

lemma py_round0_floor: "\<lfloor>x\<rfloor> \<le> py_round0 x \<and> py_round0 x \<le> \<lfloor>x\<rfloor> + 1"
  by (simp add: py_round0_def Let_def)

lemma py_round0_mono:
  assumes "x \<le> y"
  shows "py_round0 x \<le> py_round0 y"
proof (cases "\<lfloor>x\<rfloor> = \<lfloor>y\<rfloor>")
  case True
  with assms show ?thesis by (simp add: py_round0_def Let_def)
next
  case False
  with assms have "\<lfloor>x\<rfloor> < \<lfloor>y\<rfloor>"
    using floor_mono [OF assms] by linarith
  then have "\<lfloor>x\<rfloor> + 1 \<le> \<lfloor>y\<rfloor>" by simp
  with py_round0_floor [of x] py_round0_floor [of y] show ?thesis by linarith
qed

lemma py_round0_of_int: "py_round0 (of_int k) = k"
  by (simp add: py_round0_def)

lemma py_round_0: "py_round x 0 = of_int (py_round0 x)"
  by (simp add: py_round_def)

lemma py_round_0_le:
  assumes "x \<le> of_int k"
  shows "py_round x 0 \<le> of_int k"
proof -
  have "py_round0 x \<le> py_round0 (of_int k)" using assms by (rule py_round0_mono)
  then show ?thesis by (simp add: py_round_0 py_round0_of_int)
qed

lemma py_round_0_mono: "x \<le> y \<Longrightarrow> py_round x 0 \<le> py_round y 0"
  by (simp add: py_round_0 py_round0_mono)

lemma fst_compute_portion:
  "fst (compute_portion dish sel cal vol) = max 20 (py_round (portion_cap dish cal vol) 0)"
  unfolding compute_portion_def portion_cap_def Let_def fst_conv by (rule refl)

lemma min4_le: "min a (min b (min c d)) \<le> (d::real)" "min a (min b (min c d)) \<le> a"
  by (rule min.coboundedI2, rule min.coboundedI2, rule min.cobounded2) (rule min.cobounded1)

lemma portion_cap_le:
  "portion_cap dish cal vol \<le> 250" "portion_cap dish cal vol \<le> estimated_grams dish"
  unfolding portion_cap_def Let_def by (rule min4_le)+

lemma portion_range:
  "20 \<le> fst (compute_portion dish sel cal vol) \<and> fst (compute_portion dish sel cal vol) \<le> 250"
proof
  show "20 \<le> fst (compute_portion dish sel cal vol)"
    by (simp add: fst_compute_portion)
  have "py_round (portion_cap dish cal vol) 0 \<le> of_int 250"
    by (rule py_round_0_le) (simp add: portion_cap_le)
  then show "fst (compute_portion dish sel cal vol) \<le> 250"
    by (simp add: fst_compute_portion)
qed

lemma portion_le_rounded:
  "fst (compute_portion dish sel cal vol) \<le> max 20 (py_round (estimated_grams dish) 0)"
proof -
  have "py_round (portion_cap dish cal vol) 0 \<le> py_round (estimated_grams dish) 0"
    by (rule py_round_0_mono) (rule portion_cap_le)
  then show ?thesis
    by (simp add: fst_compute_portion max_def)
qed

subsection \<open>Phase groups\<close>

lemma map_fst_group_add:
  "map fst (group_add g k d) = (if k \<in> fst ` set g then map fst g else map fst g @ [k])"
  by (induction g k d rule: group_add.induct) auto

lemma map_of_group_add:
  "map_of (group_add g k d) k' =
     (if k' = k then Some ((case map_of g k of None \<Rightarrow> [] | Some ds \<Rightarrow> ds) @ [d])
      else map_of g k')"
  by (induction g k d rule: group_add.induct) auto

lemma phase_groups_snoc:
  "phase_groups (sel @ [d]) = group_add (phase_groups sel) (classify_phase d) d"
  by (simp add: phase_groups_def)

lemma phase_groups_props:
  "distinct (map fst (phase_groups sel))
   \<and> (\<forall>k. map_of (phase_groups sel) k = (if members k sel = [] then None else Some (members k sel)))"
proof (induction sel rule: rev_induct)
  case Nil
  show ?case by (simp add: phase_groups_def members_def)
next
  case (snoc d sel)
  let ?g = "phase_groups sel" and ?k = "classify_phase d"
  from snoc have dist: "distinct (map fst ?g)"
    and lookup: "\<And>k. map_of ?g k = (if members k sel = [] then None else Some (members k sel))"
    by simp_all
  have "distinct (map fst (group_add ?g ?k d))"
    using dist by (simp add: map_fst_group_add)
  moreover have "map_of (group_add ?g ?k d) k
      = (if members k (sel @ [d]) = [] then None else Some (members k (sel @ [d])))" for k
    by (simp add: map_of_group_add lookup members_def)
  ultimately show ?case by (simp add: phase_groups_snoc)
qed

lemma phase_groups_distinct: "distinct (map fst (phase_groups sel))"
  using phase_groups_props by blast

lemma phase_groups_lookup:
  "map_of (phase_groups sel) k = (if members k sel = [] then None else Some (members k sel))"
  using phase_groups_props by blast

lemma phase_groups_keys: "set (map fst (phase_groups sel)) = classify_phase ` set sel"
proof -
  have "set (map fst (phase_groups sel)) = dom (map_of (phase_groups sel))"
    by (simp add: dom_map_of_conv_image_fst)
  also have "\<dots> = {k. members k sel \<noteq> []}"
    by (auto simp: dom_def phase_groups_lookup)
  also have "\<dots> = classify_phase ` set sel"
    by (auto simp: members_def filter_empty_conv)
  finally show ?thesis .
qed

lemma classify_phase_names: "classify_phase d \<in> phase_names"
  by (simp add: classify_phase_def phase_names_def Let_def)

lemma phase_order_inj: "inj_on phase_order_of phase_names"
  by (simp add: phase_names_def phase_order_of_def order_map_def)

lemma phase_order_range: "k \<in> phase_names \<Longrightarrow> phase_order_of k \<in> {1..5}"
  by (auto simp: phase_names_def phase_order_of_def order_map_def)

subsection \<open>The planning loops\<close>

lemma plan_item_fst:
  "dish_name (fst (plan_item cl sel totals dish)) = name dish
   \<and> portion_grams (fst (plan_item cl sel totals dish))
       = fst (compute_portion dish sel (of_int cl - fst totals) (STOMACH_CAPACITY_ML - snd totals))"
  by (cases totals) (simp add: plan_item_def Let_def split: prod.split)

lemma plan_items_names: "map dish_name (fst (plan_items cl sel totals ds)) = map name ds"
proof (induction ds arbitrary: totals)
  case Nil
  show ?case by simp
next
  case (Cons d ds)
  obtain item t' where pi: "plan_item cl sel totals d = (item, t')" by (cases "plan_item cl sel totals d")
  obtain its t'' where pis: "plan_items cl sel t' ds = (its, t'')" by (cases "plan_items cl sel t' ds")
  have "dish_name item = name d"
    using plan_item_fst [of cl sel totals d] pi by simp
  moreover have "map dish_name its = map name ds"
    using Cons.IH [of t'] pis by simp
  ultimately show ?case using pi pis by simp
qed

lemma plan_items_portions:
  "i \<in> set (fst (plan_items cl sel totals ds)) \<Longrightarrow> 20 \<le> portion_grams i \<and> portion_grams i \<le> 250"
proof (induction ds arbitrary: totals)
  case Nil
  then show ?case by simp
next
  case (Cons d ds)
  obtain item t' where pi: "plan_item cl sel totals d = (item, t')" by (cases "plan_item cl sel totals d")
  obtain its t'' where pis: "plan_items cl sel t' ds = (its, t'')" by (cases "plan_items cl sel t' ds")
  from Cons.prems pi pis have "i = item \<or> i \<in> set its" by simp
  then show ?case
  proof
    assume "i = item"
    with pi plan_item_fst [of cl sel totals d] portion_range [of d sel]
    show ?thesis by simp
  next
    assume "i \<in> set its"
    with Cons.IH [of t'] pis show ?thesis by simp
  qed
qed

lemma plan_phases_shape:
  "map (\<lambda>p. (phase_order p, item_names p)) (fst (plan_phases cl sel g totals names))
     = map (\<lambda>k. (phase_order_of k, map name (group_of g k))) names"
proof (induction names arbitrary: totals)
  case Nil
  show ?case by simp
next
  case (Cons k names)
  obtain its t' where pis: "plan_items cl sel totals (group_of g k) = (its, t')"
    by (cases "plan_items cl sel totals (group_of g k)")
  obtain ps t'' where pps: "plan_phases cl sel g t' names = (ps, t'')"
    by (cases "plan_phases cl sel g t' names")
  have "map dish_name its = map name (group_of g k)"
    using plan_items_names [of cl sel totals "group_of g k"] pis by simp
  with Cons.IH [of t'] pis pps show ?case
    by (simp add: group_of_def [symmetric] item_names_def)
qed

lemma plan_phases_portions:
  "p \<in> set (fst (plan_phases cl sel g totals names)) \<Longrightarrow> i \<in> set (items p)
     \<Longrightarrow> 20 \<le> portion_grams i \<and> portion_grams i \<le> 250"
proof (induction names arbitrary: totals)
  case Nil
  then show ?case by simp
next
  case (Cons k names)
  obtain its t' where pis: "plan_items cl sel totals (group_of g k) = (its, t')"
    by (cases "plan_items cl sel totals (group_of g k)")
  obtain ps t'' where pps: "plan_phases cl sel g t' names = (ps, t'')"
    by (cases "plan_phases cl sel g t' names")
  from Cons.prems(1) pis pps have "items p = its \<or> p \<in> set ps"
    by (auto simp: group_of_def [symmetric])
  then show ?case
  proof
    assume "items p = its"
    with Cons.prems(2) plan_items_portions [of i cl sel totals "group_of g k"] pis
    show ?thesis by simp
  next
    assume "p \<in> set ps"
    with Cons.IH [of t'] Cons.prems(2) pps show ?thesis by simp
  qed
qed

subsection \<open>Phases of the plan\<close>

lemma mset_filter_split:
  "(\<And>x. x \<in> set xs \<Longrightarrow> \<not> (P x \<and> Q x)) \<Longrightarrow>
     mset (filter P xs) + mset (filter Q xs) = mset (filter (\<lambda>x. P x \<or> Q x) xs)"
  by (induction xs) auto

lemma mset_concat_classes:
  "distinct ks \<Longrightarrow>
     mset (concat (map (\<lambda>k. filter (\<lambda>d. f d = k) xs) ks)) = mset (filter (\<lambda>d. f d \<in> set ks) xs)"
proof (induction ks)
  case Nil
  show ?case by simp
next
  case (Cons k ks)
  then have "k \<notin> set ks" and "distinct ks" by simp_all
  have "mset (concat (map (\<lambda>k. filter (\<lambda>d. f d = k) xs) (k # ks)))
      = mset (filter (\<lambda>d. f d = k) xs) + mset (filter (\<lambda>d. f d \<in> set ks) xs)"
    using Cons.IH [OF \<open>distinct ks\<close>] by simp
  also have "\<dots> = mset (filter (\<lambda>d. f d = k \<or> f d \<in> set ks) xs)"
    using \<open>k \<notin> set ks\<close> by (intro mset_filter_split) auto
  also have "\<dots> = mset (filter (\<lambda>d. f d \<in> set (k # ks)) xs)"
    by (simp cong: filter_cong)
  finally show ?case .
qed

lemma phases_build_strategy:
  "phases (build_strategy sel sk cl)
     = sort_key phase_order
         (fst (plan_phases cl sel (phase_groups sel) (0, 0)
                 (sort_key phase_order_of (map fst (phase_groups sel)))))"
  by (simp add: build_strategy_def Let_def split: prod.split)

lemma sorted_names_props:
  "distinct (sorted_names sel)" "set (sorted_names sel) = classify_phase ` set sel"
  "sorted (map phase_order_of (sorted_names sel))"
  using phase_groups_distinct [of sel] phase_groups_keys [of sel]
  by (simp_all add: sorted_names_def)

lemma sorted_names_orders: "sorted_wrt (<) (map phase_order_of (sorted_names sel))"
proof -
  have "set (sorted_names sel) \<subseteq> phase_names"
    using classify_phase_names by (auto simp: sorted_names_props)
  then have "inj_on phase_order_of (set (sorted_names sel))"
    using phase_order_inj by (rule inj_on_subset [rotated])
  then have "distinct (map phase_order_of (sorted_names sel))"
    by (simp add: distinct_map sorted_names_props)
  then show ?thesis
    by (simp add: strict_sorted_iff sorted_names_props)
qed

lemma phases_shape:
  "map (\<lambda>p. (phase_order p, item_names p)) (phases (build_strategy sel sk cl))
     = map (\<lambda>k. (phase_order_of k, map name (members k sel))) (sorted_names sel)"
proof -
  let ?ps = "fst (plan_phases cl sel (phase_groups sel) (0, 0) (sorted_names sel))"
  have shape: "map (\<lambda>p. (phase_order p, item_names p)) ?ps
      = map (\<lambda>k. (phase_order_of k, map name (group_of (phase_groups sel) k))) (sorted_names sel)"
    by (rule plan_phases_shape)
  have "map phase_order ?ps = map fst (map (\<lambda>p. (phase_order p, item_names p)) ?ps)"
    by (simp add: comp_def)
  also have "\<dots> = map phase_order_of (sorted_names sel)"
    unfolding shape by (simp add: comp_def)
  finally have "sorted (map phase_order ?ps)"
    by (simp add: sorted_names_props)
  then have "sort_key phase_order ?ps = ?ps"
    by (rule sort_key_id_if_sorted)
  then have "phases (build_strategy sel sk cl) = ?ps"
    by (simp add: phases_build_strategy sorted_names_def)
  moreover have "group_of (phase_groups sel) k = members k sel" for k
    by (simp add: group_of_def phase_groups_lookup)
  ultimately show ?thesis using shape by simp
qed

lemma members_by_order:
  assumes "k \<in> phase_names"
  shows "members k sel = filter (\<lambda>d. phase_order_of (classify_phase d) = phase_order_of k) sel"
proof -
  have "phase_order_of (classify_phase d) = phase_order_of k \<longleftrightarrow> classify_phase d = k" for d
    using phase_order_inj classify_phase_names [of d] assms by (auto dest: inj_onD)
  then show ?thesis by (simp add: members_def)
qed

text \<open>
  C7. In the planner's output every selected item appears in exactly one phase and exactly
  once: the items of a phase are the selected dishes classified into it, in their order,
  and over all phases they are the selected dishes. The phase orders of the emitted phases
  increase strictly, under starter(1) < protein(2) < vegetables(3) < carbs(4) < treats(5),
  and every emitted phase has an item.
\<close>

theorem planner_phases:
  "sorted_wrt (<) (map phase_order (phases (build_strategy sel sk cl)))
   \<and> set (map phase_order (phases (build_strategy sel sk cl))) \<subseteq> {1..5}
   \<and> (\<forall>p\<in>set (phases (build_strategy sel sk cl)).
         items p \<noteq> []
         \<and> item_names p
             = map name (filter (\<lambda>d. phase_order_of (classify_phase d) = phase_order p) sel))
   \<and> mset (concat (map item_names (phases (build_strategy sel sk cl)))) = mset (map name sel)
   \<and> map phase_order_of [''starter'', ''protein'', ''vegetables'', ''carbs'', ''treats'']
       = [1, 2, 3, 4, 5]"
proof (intro conjI ballI)
  let ?ps = "phases (build_strategy sel sk cl)"
  have orders: "map phase_order ?ps = map phase_order_of (sorted_names sel)"
    using arg_cong [OF phases_shape [of sel sk cl], of "map fst"] by (simp add: comp_def)
  have names: "map item_names ?ps = map (\<lambda>k. map name (members k sel)) (sorted_names sel)"
    using arg_cong [OF phases_shape [of sel sk cl], of "map snd"] by (simp add: comp_def)
  show "sorted_wrt (<) (map phase_order ?ps)"
    unfolding orders by (rule sorted_names_orders)
  show "set (map phase_order ?ps) \<subseteq> {1..5}"
    unfolding orders using phase_order_range classify_phase_names
    by (auto simp: sorted_names_props)
  show "mset (concat (map item_names ?ps)) = mset (map name sel)"
  proof -
    have "concat (map item_names ?ps)
        = map name (concat (map (\<lambda>k. filter (\<lambda>d. classify_phase d = k) sel) (sorted_names sel)))"
      unfolding names by (simp add: map_concat comp_def members_def)
    moreover have "mset (concat (map (\<lambda>k. filter (\<lambda>d. classify_phase d = k) sel) (sorted_names sel)))
        = mset (filter (\<lambda>d. classify_phase d \<in> set (sorted_names sel)) sel)"
      by (rule mset_concat_classes) (rule sorted_names_props)
    moreover have "filter (\<lambda>d. classify_phase d \<in> set (sorted_names sel)) sel = sel"
      by (simp add: sorted_names_props)
    ultimately show ?thesis by simp
  qed
  show "map phase_order_of [''starter'', ''protein'', ''vegetables'', ''carbs'', ''treats'']
       = [1, 2, 3, 4, 5]"
    by (simp add: phase_order_of_def order_map_def)
next
  fix p assume "p \<in> set (phases (build_strategy sel sk cl))"
  then have "(phase_order p, item_names p)
      \<in> set (map (\<lambda>p. (phase_order p, item_names p)) (phases (build_strategy sel sk cl)))"
    by simp
  then obtain k where k: "k \<in> set (sorted_names sel)" "phase_order p = phase_order_of k"
    "item_names p = map name (members k sel)"
    unfolding phases_shape by auto
  from k(1) have kn: "k \<in> phase_names" and ne: "members k sel \<noteq> []"
    using classify_phase_names by (auto simp: sorted_names_props members_def filter_empty_conv)
  from k(3) ne show "items p \<noteq> []"
    by (auto simp: item_names_def)
  show "item_names p
      = map name (filter (\<lambda>d. phase_order_of (classify_phase d) = phase_order p) sel)"
    unfolding k(2,3) members_by_order [OF kn] ..
qed

lemma classify_rice: "classify_phase rice_100g = ''carbs''"
  by (simp add: classify_phase_def rice_100g_def string_simps)

lemma classify_steak: "classify_phase steak_1kg = ''protein''"
  by (simp add: classify_phase_def steak_1kg_def string_simps)

lemma sorted_names_rice_steak: "sorted_names [rice_100g, steak_1kg] = [''protein'', ''carbs'']"
  by (simp add: sorted_names_def phase_groups_def classify_rice classify_steak
        phase_order_of_def order_map_def)

theorem planner_phases_witness:
  "map (\<lambda>p. (phase_order p, item_names p)) (phases (build_strategy [rice_100g, steak_1kg] [] 2000))
     = [(2, [''steak'']), (4, [''rice''])]
   \<and> sorted_wrt (<) (map phase_order (phases (build_strategy [rice_100g, steak_1kg] [] 2000)))
   \<and> mset (concat (map item_names (phases (build_strategy [rice_100g, steak_1kg] [] 2000))))
       = mset (map name [rice_100g, steak_1kg])"
proof -
  have "map (\<lambda>p. (phase_order p, item_names p)) (phases (build_strategy [rice_100g, steak_1kg] [] 2000))
     = [(2, [''steak'']), (4, [''rice''])]"
    unfolding phases_shape sorted_names_rice_steak
    by (simp add: members_def classify_rice classify_steak phase_order_of_def order_map_def)
       (simp add: rice_100g_def steak_1kg_def)
  with planner_phases [of "[rice_100g, steak_1kg]" "[]" 2000] show ?thesis by blast
qed

subsection \<open>Portions\<close>

lemma portion_rice_10g: "fst (compute_portion rice_10g [rice_10g] 2000 1350) = 20"
  by (simp add: fst_compute_portion portion_cap_def rice_10g_def py_round_def py_round0_def)

lemma classify_rice_10g: "classify_phase rice_10g = ''carbs''"
  by (simp add: classify_phase_def rice_10g_def string_simps)

lemma items_rice_10g:
  "map (\<lambda>p. map portion_grams (items p)) (phases (build_strategy [rice_10g] [] 2000)) = [[20]]"
proof -
  obtain item t where pi: "plan_item 2000 [rice_10g] (0, 0) rice_10g = (item, t)"
    by (cases "plan_item 2000 [rice_10g] (0, 0) rice_10g")
  have "portion_grams item = 20"
    using plan_item_fst [of 2000 "[rice_10g]" "(0, 0)" rice_10g] pi portion_rice_10g
    by (simp add: STOMACH_CAPACITY_ML_def)
  then show ?thesis
    by (simp add: phases_build_strategy phase_groups_def classify_rice_10g pi)
qed

text \<open>
  C5, as the claim states it, fails for a dish below 20 g: for rice of 10 g the portion is
  the floor of 20 g, above the estimated mass, and 20 g is the portion of the item in the
  plan.
\<close>

theorem small_dish_counterexample:
  "estimated_grams rice_10g = 10
   \<and> fst (compute_portion rice_10g [rice_10g] 2000 1350) = 20
   \<and> \<not> fst (compute_portion rice_10g [rice_10g] 2000 1350) \<le> estimated_grams rice_10g
   \<and> map (\<lambda>p. map portion_grams (items p)) (phases (build_strategy [rice_10g] [] 2000)) = [[20]]"
  by (simp add: portion_rice_10g items_rice_10g) (simp add: rice_10g_def)

lemma phases_set:
  "set (phases (build_strategy sel sk cl))
     = set (fst (plan_phases cl sel (phase_groups sel) (0, 0)
                   (sort_key phase_order_of (map fst (phase_groups sel)))))"
  by (simp add: phases_build_strategy)

text \<open>
  C5, amended. Every portion lies in [20, 250] grams, for \<^verbatim>\<open>_compute_portion\<close> on any
  arguments and for every item of every phase of the plan, and it is at most the larger of
  20 and the estimated mass rounded to a whole gram; so it is at most the estimated mass
  when that is a whole number of grams and at least 20.
\<close>

theorem portion_bounds:
  "20 \<le> fst (compute_portion dish sel cal vol)
   \<and> fst (compute_portion dish sel cal vol) \<le> 250
   \<and> fst (compute_portion dish sel cal vol) \<le> max 20 (py_round (estimated_grams dish) 0)
   \<and> (20 \<le> estimated_grams dish \<and> estimated_grams dish \<in> \<int>
        \<longrightarrow> fst (compute_portion dish sel cal vol) \<le> estimated_grams dish)
   \<and> (\<forall>p\<in>set (phases (build_strategy sel sk cl)). \<forall>i\<in>set (items p).
         20 \<le> portion_grams i \<and> portion_grams i \<le> 250)"
proof (intro conjI impI ballI)
  show "20 \<le> fst (compute_portion dish sel cal vol)"
    and "fst (compute_portion dish sel cal vol) \<le> 250"
    using portion_range [of dish sel cal vol] by simp_all
  show le: "fst (compute_portion dish sel cal vol) \<le> max 20 (py_round (estimated_grams dish) 0)"
    by (rule portion_le_rounded)
  {
    assume a: "20 \<le> estimated_grams dish \<and> estimated_grams dish \<in> \<int>"
    then obtain k where k: "estimated_grams dish = of_int k" by (auto elim: Ints_cases)
    have "py_round (estimated_grams dish) 0 = estimated_grams dish"
      unfolding k by (simp add: py_round_0 py_round0_of_int)
    with le a show "fst (compute_portion dish sel cal vol) \<le> estimated_grams dish"
      by simp
  }
  {
    fix p i assume "p \<in> set (phases (build_strategy sel sk cl))" and i: "i \<in> set (items p)"
    then have "p \<in> set (fst (plan_phases cl sel (phase_groups sel) (0, 0)
                   (sort_key phase_order_of (map fst (phase_groups sel)))))"
      by (simp add: phases_set)
    from plan_phases_portions [OF this i]
    show "20 \<le> portion_grams i" and "portion_grams i \<le> 250" by simp_all
  }
qed

theorem portion_bounds_witness:
  "20 \<le> estimated_grams rice_100g \<and> estimated_grams rice_100g \<in> \<int>
   \<and> fst (compute_portion rice_100g [rice_100g] 2000 1350) \<le> estimated_grams rice_100g
   \<and> 20 \<le> fst (compute_portion rice_100g [rice_100g] 2000 1350)"
proof -
  have h: "20 \<le> estimated_grams rice_100g \<and> estimated_grams rice_100g \<in> \<int>"
    by (simp add: rice_100g_def)
  with portion_bounds [of rice_100g "[rice_100g]" 2000 1350 "[]" 2000] show ?thesis
    by blast
qed

subsection \<open>Allergens\<close>

lemma filter_dietary_subset: "set (filter_dietary it ds fs) \<subseteq> set ds"
  by (auto simp: filter_dietary_def Let_def)

lemma filter_allergies_sound:
  "d \<in> set (filter_allergies ds al) \<Longrightarrow> \<not> any_in (map lower al) (lower (name d))"
  by (cases "al = []") (simp_all add: filter_allergies_def any_in_def)

lemma filtered_sound:
  assumes "d \<in> set (filtered it ds (Some al) df)"
  shows "\<not> any_in (map lower al) (lower (name d))"
proof -
  from assms have "d \<in> set (filter_allergies ds al)"
    using filter_dietary_subset unfolding filtered_def by fastforce
  then show ?thesis by (rule filter_allergies_sound)
qed

lemma process_outputs_filtered:
  assumes "GoalOptimizationAgent_process a it dishes goal al df = (selected, skip')"
  shows "set selected \<subseteq> set (filtered it dishes al df)"
    and "set skip' \<subseteq> set (filtered it dishes al df)"
  using process_selected_subset [OF assms] process_skip [OF assms] by auto

lemma phase_item_source:
  assumes "p \<in> set (phases (build_strategy sel sk cl))" and "i \<in> set (items p)"
  shows "\<exists>d\<in>set sel. dish_name i = name d"
proof -
  from assms(1) have "(phase_order p, item_names p)
      \<in> set (map (\<lambda>p. (phase_order p, item_names p)) (phases (build_strategy sel sk cl)))"
    by simp
  then obtain k where "item_names p = map name (members k sel)"
    unfolding phases_shape by auto
  moreover from assms(2) have "dish_name i \<in> set (item_names p)"
    by (simp add: item_names_def)
  ultimately show ?thesis by (auto simp: members_def)
qed

lemma skip_build_strategy: "skip (build_strategy sel sk cl) = skip_list_of sk"
  by (simp add: build_strategy_def Let_def split: prod.split)

lemma skip_entry_source:
  assumes "e \<in> set (skip (build_strategy sel sk cl))"
  shows "\<exists>d\<in>set sk. skip_name e = name d"
  using assms by (auto simp: skip_build_strategy skip_list_of_def)

lemma fst_process_strategy:
  "fst (StrategyPlanningAgent_process sel sk goal cl) = build_strategy sel sk cl"
  by (simp add: StrategyPlanningAgent_process_def Let_def)

text \<open>
  C2, amended. A dish whose lower-cased name contains a lower-cased allergen keyword is
  dropped before selection: it is in neither output of the allocator, no item of a phase
  of the plan has such a name, and no entry of the plan's skip list has such a name.
\<close>

theorem allergen_items_dropped:
  assumes "GoalOptimizationAgent_process a it dishes goal (Some allergies) df = (selected, skip')"
  shows "(any_in (map lower allergies) (lower (name d)) \<longrightarrow> d \<notin> set selected \<and> d \<notin> set skip')
       \<and> (\<forall>p\<in>set (phases (fst (StrategyPlanningAgent_process selected skip' goal cl))).
            \<forall>i\<in>set (items p). \<not> any_in (map lower allergies) (lower (dish_name i)))
       \<and> (\<forall>e\<in>set (skip (fst (StrategyPlanningAgent_process selected skip' goal cl))).
            \<not> any_in (map lower allergies) (lower (skip_name e)))"
proof -
  note sub = process_outputs_filtered [OF assms]
  have clean: "\<not> any_in (map lower allergies) (lower (name x))"
    if "x \<in> set selected \<or> x \<in> set skip'" for x
    using that sub filtered_sound [of x it dishes allergies df] by blast
  show ?thesis
  proof (intro conjI impI ballI)
    assume "any_in (map lower allergies) (lower (name d))"
    with clean [of d] show "d \<notin> set selected" and "d \<notin> set skip'" by blast+
  next
    fix p i
    assume "p \<in> set (phases (fst (StrategyPlanningAgent_process selected skip' goal cl)))"
      and "i \<in> set (items p)"
    then obtain x where "x \<in> set selected" "dish_name i = name x"
      unfolding fst_process_strategy using phase_item_source by blast
    with clean [of x] show "\<not> any_in (map lower allergies) (lower (dish_name i))" by simp
  next
    fix e
    assume "e \<in> set (skip (fst (StrategyPlanningAgent_process selected skip' goal cl)))"
    then obtain x where "x \<in> set skip'" "skip_name e = name x"
      unfolding fst_process_strategy using skip_entry_source by blast
    with clean [of x] show "\<not> any_in (map lower allergies) (lower (skip_name e))" by simp
  qed
qed

lemma chicken_matches: "any_in (map lower [''chicken'']) (lower (name chicken_150g))"
  by (simp add: chicken_150g_def string_simps)

lemma rice_no_match: "\<not> any_in (map lower [''chicken'']) (lower (name rice_100g))"
  by (simp add: rice_100g_def string_simps)

lemma rest_strategy:
  assumes "detected \<noteq> []"
    and "GoalOptimizationAgent_process
           (GoalOptimizationAgent_init (Some (or_default cl)) STOMACH_CAPACITY_ML) it
           (StomachPhysicsAgent_process (NutritionAgent_process detected)) goal (Some al) (Some df)
         = (sel, sk)"
  shows "strategy_of (run_rest_of_pipeline it detected goal cl al df)
       = Strategy (build_strategy sel sk (or_default cl))"
  using assms
  by (simp add: run_rest_of_pipeline_def StrategyPlanningAgent_process_def Let_def)

lemma stages_chicken_rice:
  "StomachPhysicsAgent_process (NutritionAgent_process
      (map detected_dish_from_manual [manual_chicken, manual_rice])) = [chicken_150g, rice_100g]"
  using stages_append [of "[detected_dish_from_manual manual_chicken]" "[detected_dish_from_manual manual_rice]"]
  by (simp add: stages_chicken stages_rice)

lemma default_agent: "GoalOptimizationAgent_init (Some (or_default None)) STOMACH_CAPACITY_ML = agent_2000"
  by (simp add: agent_2000_def or_default_def DEFAULT_CALORIE_LIMIT_def)

lemma filtered_chicken_rice:
  "filtered source_order [chicken_150g, rice_100g] (Some [''chicken'']) (Some []) = [rice_100g]"
  using chicken_matches rice_no_match
  by (simp add: filtered_def filter_allergies_def filter_dietary_def)

lemma process_chicken_rice:
  "GoalOptimizationAgent_process agent_2000 source_order [chicken_150g, rice_100g] ''fat_loss''
     (Some [''chicken'']) (Some []) = ([rice_100g], [])"
  by (simp add: GoalOptimizationAgent_process_def filtered_chicken_rice scored_def fits_rice_2000)
     (simp add: accept_def)

lemma plan_chicken_rice:
  "strategy_of (run_pipeline_manual source_order [manual_chicken, manual_rice] ''fat_loss'' None
      (Some [''chicken'']) None) = Strategy (build_strategy [rice_100g] [] 2000)"
proof -
  have "strategy_of (run_rest_of_pipeline source_order
          (map detected_dish_from_manual [manual_chicken, manual_rice]) ''fat_loss'' None [''chicken''] [])
      = Strategy (build_strategy [rice_100g] [] (or_default None))"
    by (rule rest_strategy) (simp_all only: stages_chicken_rice default_agent process_chicken_rice, simp)
  then show ?thesis
    by (simp add: run_pipeline_manual_def or_default_def DEFAULT_CALORIE_LIMIT_def)
qed

theorem allergen_items_dropped_witness:
  "any_in (map lower [''chicken'']) (lower (name chicken_150g))
   \<and> GoalOptimizationAgent_process agent_2000 source_order [chicken_150g, rice_100g] ''fat_loss''
        (Some [''chicken'']) (Some []) = ([rice_100g], [])
   \<and> chicken_150g \<notin> set [rice_100g] \<and> chicken_150g \<notin> set ([] :: DishWithStomachImpact list)"
  using allergen_items_dropped [OF process_chicken_rice, of chicken_150g 2000]
    chicken_matches process_chicken_rice
  by blast

text \<open>
  C2, as the claim states it, fails in its last part: with the allergen ``chicken'' the
  manual dish ``Grilled Chicken'' is not selected, and the skip list of the final plan is
  empty.
\<close>

theorem allergen_not_in_skip_list_counterexample:
  "any_in (map lower [''chicken'']) (lower (m_name manual_chicken))
   \<and> strategy_of (run_pipeline_manual source_order [manual_chicken, manual_rice] ''fat_loss'' None
        (Some [''chicken'']) None) = Strategy (build_strategy [rice_100g] [] 2000)
   \<and> skip (build_strategy [rice_100g] [] 2000) = []"
  using chicken_matches plan_chicken_rice
  by (simp add: skip_build_strategy skip_list_of_def manual_chicken_def chicken_150g_def)

subsection \<open>Manual input\<close>

lemma sum_confidence_manual:
  "(\<Sum>d\<leftarrow>map detected_dish_from_manual dishes. confidence d) = 9 / 10 * of_nat (length dishes)"
  by (induction dishes) (simp_all add: detected_dish_from_manual_def algebra_simps)

lemma py_round_nine_tenths: "py_round (9 / 10) 2 = 9 / 10"
  by (simp add: py_round_def py_round0_def)

lemma confidence_overall_rest:
  "detected \<noteq> [] \<Longrightarrow>
     confidence_overall (run_rest_of_pipeline it detected goal cl al df)
       = py_round ((\<Sum>d\<leftarrow>detected. confidence d) / of_nat (length detected)) 2
     \<and> detected_dishes (run_rest_of_pipeline it detected goal cl al df) = detected"
  by (simp add: run_rest_of_pipeline_def Let_def split: prod.split)

text \<open>
  C10. For a manual dish list that is not empty every dish is detected with the
  confidence 0.9, with the mass 100 g where none is given, and the overall confidence of
  the response, the mean of these rounded to two decimals, is 0.9.
\<close>

theorem manual_confidence:
  assumes "dishes \<noteq> []"
  shows "confidence_overall (run_pipeline_manual it dishes goal cl al df) = 0.9
       \<and> map confidence (detected_dishes (run_pipeline_manual it dishes goal cl al df))
           = replicate (length dishes) 0.9
       \<and> map estimated_grams (detected_dishes (run_pipeline_manual it dishes goal cl al df))
           = map (\<lambda>d. case m_estimated_grams d of None \<Rightarrow> 100 | Some g \<Rightarrow> g) dishes"
proof -
  let ?detected = "map detected_dish_from_manual dishes"
  let ?al = "case al of None \<Rightarrow> [] | Some a \<Rightarrow> a" and ?df = "case df of None \<Rightarrow> [] | Some f \<Rightarrow> f"
  from assms have ne: "?detected \<noteq> []" by simp
  have run: "run_pipeline_manual it dishes goal cl al df
      = run_rest_of_pipeline it ?detected goal cl ?al ?df"
    by (simp add: run_pipeline_manual_def Let_def)
  have mean: "(\<Sum>d\<leftarrow>?detected. confidence d) / of_nat (length ?detected) = 9 / 10"
    unfolding sum_confidence_manual using assms by simp
  have "confidence_overall (run_pipeline_manual it dishes goal cl al df) = py_round (9 / 10) 2"
    unfolding run using confidence_overall_rest [OF ne, of it goal cl ?al ?df]
    by (simp only: mean)
  then have overall: "confidence_overall (run_pipeline_manual it dishes goal cl al df) = 0.9"
    by (simp add: py_round_nine_tenths)
  have detected: "detected_dishes (run_pipeline_manual it dishes goal cl al df) = ?detected"
    unfolding run using confidence_overall_rest [OF ne, of it goal cl ?al ?df] by blast
  have "map confidence ?detected = replicate (length dishes) 0.9"
    by (induction dishes) (simp_all add: detected_dish_from_manual_def)
  moreover have "map estimated_grams ?detected
      = map (\<lambda>d. case m_estimated_grams d of None \<Rightarrow> 100 | Some g \<Rightarrow> g) dishes"
    by (simp add: detected_dish_from_manual_def comp_def)
  ultimately show ?thesis using overall detected by simp
qed

theorem manual_confidence_witness:
  "[manual_rice, manual_steak] \<noteq> []
   \<and> confidence_overall (run_pipeline_manual source_order [manual_rice, manual_steak]
        ''muscle_gain'' None None None) = 0.9
   \<and> map estimated_grams (detected_dishes (run_pipeline_manual source_order
        [manual_rice, manual_steak] ''muscle_gain'' None None None)) = [100, 1000]"
  using manual_confidence [of "[manual_rice, manual_steak]" source_order "''muscle_gain''" None None None]
  by (simp add: manual_rice_def manual_steak_def)

subsection \<open>Determinism\<close>

lemma any_in_set: "set xs = set ys \<Longrightarrow> any_in xs s = any_in ys s"
  by (simp add: any_in_def list_ex_iff)

lemma filter_dietary_order:
  assumes "iterates it1" and "iterates it2"
  shows "filter_dietary it1 ds fs = filter_dietary it2 ds fs"
proof -
  have vegan: "set (non_vegan_iter it1) = set (non_vegan_iter it2)"
    and veg: "set (non_veg_iter it1) = set (non_veg_iter it2)"
    using assms unfolding iterates_def by simp_all
  have "any_in (non_vegan_iter it1) = any_in (non_vegan_iter it2)"
    and "any_in (non_veg_iter it1) = any_in (non_veg_iter it2)"
    by (rule ext, rule any_in_set, rule vegan) (rule ext, rule any_in_set, rule veg)
  then show ?thesis
    unfolding filter_dietary_def by (simp only:)
qed

lemma allocator_order:
  assumes "iterates it1" and "iterates it2"
  shows "GoalOptimizationAgent_process a it1 ds goal al df
       = GoalOptimizationAgent_process a it2 ds goal al df"
  unfolding GoalOptimizationAgent_process_def filtered_def filter_dietary_order [OF assms] ..

text \<open>
  C9. The pipeline after detection is a function of the detected dishes, the goal, the
  calorie limit, the allergens and the dietary filters: it reads no clock, no random source
  and no state. What may differ between two runs is the order in which the two keyword
  sets of the dietary filter are walked, and the whole response is the same for any two
  such orders.
\<close>

theorem pipeline_deterministic:
  assumes "iterates it1" and "iterates it2"
  shows "run_rest_of_pipeline it1 detected goal cl al df
       = run_rest_of_pipeline it2 detected goal cl al df"
  unfolding run_rest_of_pipeline_def allocator_order [OF assms] ..

lemma iterates_source: "iterates source_order"
  by (simp add: iterates_def source_order_def non_vegan_def non_veg_def)

lemma iterates_reverse: "iterates reverse_order"
  by (auto simp: iterates_def reverse_order_def source_order_def non_vegan_def non_veg_def)

theorem pipeline_deterministic_witness:
  "iterates source_order \<and> iterates reverse_order
   \<and> run_rest_of_pipeline source_order (map detected_dish_from_manual [manual_rice, manual_steak])
        ''muscle_gain'' None [] [''vegan'']
     = run_rest_of_pipeline reverse_order (map detected_dish_from_manual [manual_rice, manual_steak])
        ''muscle_gain'' None [] [''vegan'']"
  using pipeline_deterministic [OF iterates_source iterates_reverse] iterates_source iterates_reverse
  by (intro conjI)

subsection \<open>Satiety score\<close>

text \<open>
  C8. For every item the satiety score of the stomach model is
  \<open>protein * 2.0 + fiber * 3.0 + (100 / max(calories, 10)) * 100 - fat * 0.5\<close>
  floored at 0, and so it is never negative, also as it is stored, rounded to two
  decimals, in the impact of the dish.
\<close>

theorem satiety_score_formula:
  "satiety_score_of dish =
     max 0 (protein (nutrition_per_100g dish) * 2.0 + fiber (nutrition_per_100g dish) * 3.0
            + (100 / max (calories (nutrition_per_100g dish)) 10) * 100
            - fat (nutrition_per_100g dish) * 0.5)
   \<and> 0 \<le> satiety_score_of dish
   \<and> 0 \<le> satiety_score (stomach_impact (stomach_impact_of dish))"
proof (intro conjI)
  show formula: "satiety_score_of dish =
     max 0 (protein (nutrition_per_100g dish) * 2.0 + fiber (nutrition_per_100g dish) * 3.0
            + (100 / max (calories (nutrition_per_100g dish)) 10) * 100
            - fat (nutrition_per_100g dish) * 0.5)"
    by (simp add: satiety_score_of_def Let_def max_def)
  show nonneg: "0 \<le> satiety_score_of dish"
    unfolding formula by (rule max.cobounded1)
  have "py_round0 0 \<le> py_round0 (satiety_score_of dish * 10 ^ 2)"
    using nonneg by (intro py_round0_mono) simp
  then have "0 \<le> py_round (satiety_score_of dish) 2"
    using py_round0_of_int [of 0] by (simp add: py_round_def)
  then show "0 \<le> satiety_score (stomach_impact (stomach_impact_of dish))"
    by (simp add: stomach_impact_of_def Let_def)
qed

end
